theory Spec2Isabelle
  imports Complex_Main "HOL-Library.Word"
begin

unbundle bit_operations_syntax

section \<open>The canonical scene\<close>

text \<open>
  The embedding follows the release build of the library with its default configuration:
  \<^verbatim>\<open>_DEBUG\<close> and the \<^verbatim>\<open>AI_BUILD_NO_*\<close> macros are undefined, so \<^verbatim>\<open>ai_assert\<close>
  expands to nothing and the blocks under \<^verbatim>\<open>#ifdef _DEBUG\<close> and
  \<^verbatim>\<open>#ifdef AI_BUILD_NO_VALIDATEDS_PROCESS\<close> are not part of the program.
  Calls to the logger do not change any state the operations below read; they are left out.

  \<^verbatim>\<open>unsigned int\<close> is a 32-bit word (the flag loop of \<^verbatim>\<open>ValidateFlags\<close> is written
  for that width); \<^verbatim>\<open>float\<close> and \<^verbatim>\<open>double\<close> values are real numbers, that is finite
  values under exact arithmetic. An array with its element count (\<^verbatim>\<open>mMeshes\<close> with
  \<^verbatim>\<open>mNumMeshes\<close>) is a list, the count its length.
\<close>

type_synonym uint = "32 word"

record aiVector3D =
  vec_x :: real
  vec_y :: real
  vec_z :: real

record aiQuaternion =
  quat_w :: real
  quat_x :: real
  quat_y :: real
  quat_z :: real

record aiMatrix4x4 =
  a1 :: real  a2 :: real  a3 :: real  a4 :: real
  b1 :: real  b2 :: real  b3 :: real  b4 :: real
  c1 :: real  c2 :: real  c3 :: real  c4 :: real
  d1 :: real  d2 :: real  d3 :: real  d4 :: real

text \<open>\<^verbatim>\<open>aiVectorKey\<close> and \<^verbatim>\<open>aiQuatKey\<close>: a time and the value at that time.\<close>

record 'v aiKey =
  mTime :: real
  mValue :: 'v

type_synonym aiVectorKey = "aiVector3D aiKey"
type_synonym aiQuatKey = "aiQuaternion aiKey"

record aiNodeAnim =
  mPositionKeys :: "aiVectorKey list"
  mRotationKeys :: "aiQuatKey list"
  mScalingKeys :: "aiVectorKey list"

record aiAnimation =
  mDuration :: real
  mTicksPerSecond :: real
  mChannels :: "aiNodeAnim list"

record aiBone =
  mNumWeights :: uint

text \<open>
  The mesh's vertex arrays are not walked by any operation below: only their presence is
  asked, through the mesh's own predicates (\<^verbatim>\<open>HasPositions()\<close> and the others, of the
  public mesh header, which is not among the sources). They are fields here.
\<close>

record aiMesh =
  mNumVertices :: uint
  mNumFaces :: uint
  HasPositions :: bool
  HasNormals :: bool
  HasTangentsAndBitangents :: bool
  HasVertexColors :: "nat \<Rightarrow> bool"
  HasTextureCoords :: "nat \<Rightarrow> bool"
  HasBones :: bool
  mBones :: "aiBone list"

record aiTexture =
  mWidth :: uint
  mHeight :: uint

record aiMaterialProperty =
  mDataLength :: uint

record aiMaterial =
  mNumAllocated :: uint
  mProperties :: "aiMaterialProperty list"

datatype aiNode = aiNode (mNumMeshes: uint) (mChildren: "aiNode list")

record aiScene =
  mFlags :: uint
  mRootNode :: aiNode
  mMeshes :: "aiMesh list"
  mMaterials :: "aiMaterial list"
  mAnimations :: "aiAnimation list"
  mTextures :: "aiTexture list"
  mNumCameras :: uint
  mNumLights :: uint

record aiMemoryInfo =
  textures :: uint
  materials :: uint
  meshes :: uint
  nodes :: uint
  animations :: uint
  cameras :: uint
  lights :: uint
  total :: uint

text \<open>
  What \<^verbatim>\<open>sizeof\<close> gives for the scene's types, and the two array bounds of the mesh
  header: they depend on the platform and on headers outside the sources, so the memory
  walk takes them as a parameter.
\<close>

record Layout =
  sizeof_aiScene :: uint
  sizeof_aiMesh :: uint
  sizeof_aiVector3D :: uint
  sizeof_aiColor4D :: uint
  sizeof_pointer :: uint
  sizeof_unsigned_int :: uint
  sizeof_aiBone :: uint
  sizeof_aiVertexWeight :: uint
  sizeof_aiFace :: uint
  sizeof_aiTexture :: uint
  sizeof_aiAnimation :: uint
  sizeof_aiNodeAnim :: uint
  sizeof_aiVectorKey :: uint
  sizeof_aiQuatKey :: uint
  sizeof_aiCamera :: uint
  sizeof_aiLight :: uint
  sizeof_aiNode :: uint
  sizeof_aiMaterial :: uint
  AI_MAX_NUMBER_OF_COLOR_SETS :: nat
  AI_MAX_NUMBER_OF_TEXTURECOORDS :: nat

section \<open>Collaborators of the dispatcher\<close>

text \<open>
  An I/O handler is an object of the host: the dispatcher holds a pointer to it, compares
  pointers and deletes the object it owns. The store maps the addresses of the live
  handlers to the objects; \<^verbatim>\<open>new\<close> takes the next free address, \<^verbatim>\<open>delete\<close> removes the
  object. \<open>files\<close> is the host's file system, which the default handler asks.
\<close>

datatype IOSystem = DefaultIOSystem | CustomIOSystem "string \<Rightarrow> bool"

record Host =
  objs :: "nat \<rightharpoonup> IOSystem"
  brk :: nat
  files :: "string \<Rightarrow> bool"

definition new_IOSystem :: "IOSystem \<Rightarrow> Host \<Rightarrow> nat \<times> Host" where
  "new_IOSystem obj h = (brk h, h\<lparr>objs := (objs h)(brk h \<mapsto> obj), brk := Suc (brk h)\<rparr>)"

definition delete_IOSystem :: "nat \<Rightarrow> Host \<Rightarrow> Host" where
  "delete_IOSystem p h = h\<lparr>objs := (objs h)(p := None)\<rparr>"

fun Exists :: "Host \<Rightarrow> IOSystem \<Rightarrow> string \<Rightarrow> bool" where
  "Exists h DefaultIOSystem pFile = files h pFile"
| "Exists h (CustomIOSystem ex) pFile = ex pFile"

text \<open>
  What a call into a plug-in gives back: its result, an \<^verbatim>\<open>ImportErrorException\<close> with
  its text, or any other \<^verbatim>\<open>std::exception\<close> with what it says.
\<close>

datatype 'a outcome = Returned 'a | ImportErrorException string | std_exception string

text \<open>The three property tables, as a plug-in reads them through \<^verbatim>\<open>SetupProperties\<close>.\<close>

type_synonym PropertyTables =
  "(string \<rightharpoonup> 32 word) \<times> (string \<rightharpoonup> real) \<times> (string \<rightharpoonup> string)"

text \<open>
  An importer plug-in: the two virtual methods the dispatcher calls. \<open>InternReadFile\<close>
  stands for \<^verbatim>\<open>SetupProperties\<close> followed by the decoding.
\<close>

record BaseImporter =
  CanRead :: "string \<Rightarrow> IOSystem \<Rightarrow> bool \<Rightarrow> bool"
  InternReadFile :: "PropertyTables \<Rightarrow> string \<Rightarrow> IOSystem \<Rightarrow> aiScene outcome"

text \<open>A post-processing step: \<open>Execute\<close> stands for \<^verbatim>\<open>SetupProperties\<close> followed by \<^verbatim>\<open>Execute\<close>.\<close>

record BaseProcess =
  IsActive :: "uint \<Rightarrow> bool"
  Execute :: "PropertyTables \<Rightarrow> aiScene \<Rightarrow> aiScene outcome"

text \<open>
  The flag bits of the public post-processing header and the two fixed steps of
  \<^verbatim>\<open>ReadFile\<close>, all declared outside the sources.
\<close>

record aiPostProcessSteps =
  aiProcess_GenNormals :: uint
  aiProcess_GenSmoothNormals :: uint
  aiProcess_ValidateDataStructure :: uint

record Steps =
  ValidateDSProcess :: BaseProcess
  ScenePreprocessor :: "aiScene \<Rightarrow> aiScene"

section \<open>The dispatcher\<close>

record Importer =
  mIOHandler :: nat
  mIsDefaultHandler :: bool
  mImporter :: "BaseImporter list"
  mPostProcessingSteps :: "BaseProcess list"
  mScene :: "aiScene option"
  mErrorString :: string
  mIntProperties :: "string \<rightharpoonup> 32 word"
  mFloatProperties :: "string \<rightharpoonup> real"
  mStringProperties :: "string \<rightharpoonup> string"
  bExtraVerbose :: bool

text \<open>
  The constructor: a default I/O handler is allocated; the built-in importers and steps
  (classes outside the sources) are its two list arguments.
\<close>

definition new_Importer :: "BaseImporter list \<Rightarrow> BaseProcess list \<Rightarrow> Host \<Rightarrow> Importer \<times> Host" where
  "new_Importer importers steps h =
     (let (p, h') = new_IOSystem DefaultIOSystem h
      in (\<lparr>mIOHandler = p, mIsDefaultHandler = True, mImporter = importers,
            mPostProcessingSteps = steps, mScene = None, mErrorString = [],
            mIntProperties = Map.empty, mFloatProperties = Map.empty,
            mStringProperties = Map.empty, bExtraVerbose = False\<rparr>, h'))"

subsection \<open>The I/O handler\<close>

text \<open>\<open>None\<close> is the null pointer.\<close>

definition SetIOHandler :: "nat option \<Rightarrow> Importer \<times> Host \<Rightarrow> Importer \<times> Host" where
  "SetIOHandler pIOHandler s =
     (let (imp, h) = s in
      case pIOHandler of
        None \<Rightarrow>
          (let (p, h') = new_IOSystem DefaultIOSystem h
           in (imp\<lparr>mIOHandler := p, mIsDefaultHandler := True\<rparr>, h'))
      | Some p \<Rightarrow>
          if mIOHandler imp \<noteq> p
          then (imp\<lparr>mIOHandler := p, mIsDefaultHandler := False\<rparr>,
                delete_IOSystem (mIOHandler imp) h)
          else (imp, h))"

definition GetIOHandler :: "Importer \<Rightarrow> nat" where
  "GetIOHandler imp = mIOHandler imp"

definition IsDefaultIOHandler :: "Importer \<Rightarrow> bool" where
  "IsDefaultIOHandler imp = mIsDefaultHandler imp"

subsection \<open>Scene and error accessors\<close>

definition FreeScene :: "Importer \<Rightarrow> Importer" where
  "FreeScene imp = imp\<lparr>mScene := None\<rparr>"

definition GetErrorString :: "Importer \<Rightarrow> string" where
  "GetErrorString imp = mErrorString imp"

definition GetScene :: "Importer \<Rightarrow> aiScene option" where
  "GetScene imp = mScene imp"

subsection \<open>Configuration properties\<close>

text \<open>
  Modelled from the spec: \<^verbatim>\<open>SetGenericProperty\<close> and \<^verbatim>\<open>GetGenericProperty\<close> of
  \<^verbatim>\<open>GenericProperty.h\<close>, which is not among the sources. The spec: three keyed
  mappings from strings; a set writes through to the mapping, a get returns the
  caller's default when the key is absent.
\<close>

definition SetGenericProperty :: "(string \<rightharpoonup> 'v) \<Rightarrow> string \<Rightarrow> 'v \<Rightarrow> (string \<rightharpoonup> 'v)" where
  "SetGenericProperty table szName val = table(szName \<mapsto> val)"

definition GetGenericProperty :: "(string \<rightharpoonup> 'v) \<Rightarrow> string \<Rightarrow> 'v \<Rightarrow> 'v" where
  "GetGenericProperty table szName errorReturn =
     (case table szName of None \<Rightarrow> errorReturn | Some v \<Rightarrow> v)"

definition SetPropertyInteger :: "string \<Rightarrow> 32 word \<Rightarrow> Importer \<Rightarrow> Importer" where
  "SetPropertyInteger szName iValue imp =
     imp\<lparr>mIntProperties := SetGenericProperty (mIntProperties imp) szName iValue\<rparr>"

definition SetPropertyFloat :: "string \<Rightarrow> real \<Rightarrow> Importer \<Rightarrow> Importer" where
  "SetPropertyFloat szName iValue imp =
     imp\<lparr>mFloatProperties := SetGenericProperty (mFloatProperties imp) szName iValue\<rparr>"

definition SetPropertyString :: "string \<Rightarrow> string \<Rightarrow> Importer \<Rightarrow> Importer" where
  "SetPropertyString szName val imp =
     imp\<lparr>mStringProperties := SetGenericProperty (mStringProperties imp) szName val\<rparr>"

definition GetPropertyInteger :: "Importer \<Rightarrow> string \<Rightarrow> 32 word \<Rightarrow> 32 word" where
  "GetPropertyInteger imp szName iErrorReturn =
     GetGenericProperty (mIntProperties imp) szName iErrorReturn"

definition GetPropertyFloat :: "Importer \<Rightarrow> string \<Rightarrow> real \<Rightarrow> real" where
  "GetPropertyFloat imp szName iErrorReturn =
     GetGenericProperty (mFloatProperties imp) szName iErrorReturn"

definition GetPropertyString :: "Importer \<Rightarrow> string \<Rightarrow> string \<Rightarrow> string" where
  "GetPropertyString imp szName iErrorReturn =
     GetGenericProperty (mStringProperties imp) szName iErrorReturn"

definition tables :: "Importer \<Rightarrow> PropertyTables" where
  "tables imp = (mIntProperties imp, mFloatProperties imp, mStringProperties imp)"

text \<open>A sequence of property writes, for statements about keys never set.\<close>

datatype PropertyWrite =
  WriteInteger string "32 word" | WriteFloat string real | WriteString string string

fun write_property :: "PropertyWrite \<Rightarrow> Importer \<Rightarrow> Importer" where
  "write_property (WriteInteger k v) imp = SetPropertyInteger k v imp"
| "write_property (WriteFloat k v) imp = SetPropertyFloat k v imp"
| "write_property (WriteString k v) imp = SetPropertyString k v imp"

subsection \<open>Validation of the flags\<close>

text \<open>The file-level \<^verbatim>\<open>_ValidateFlags\<close>: the two normal generators exclude each other.\<close>

definition global_ValidateFlags :: "aiPostProcessSteps \<Rightarrow> uint \<Rightarrow> bool" where
  "global_ValidateFlags F pFlags =
     (if pFlags AND aiProcess_GenSmoothNormals F \<noteq> 0 \<and> pFlags AND aiProcess_GenNormals F \<noteq> 0
      then False else True)"

text \<open>The inner loop of \<^verbatim>\<open>ValidateFlags\<close>: is there a step that is active for the mask?\<close>

fun have_step :: "BaseProcess list \<Rightarrow> uint \<Rightarrow> bool" where
  "have_step [] msk = False"
| "have_step (p # ps) msk = (if IsActive p msk then True else have_step ps msk)"

text \<open>
  The outer loop, \<^verbatim>\<open>for (mask = 1; mask < (1 << (sizeof(unsigned int)*8-1)); mask <<= 1)\<close>.
  The bound is \<open>2 ^ 31\<close>. From a mask of 0 the loop would never end, so not returning is
  a value here.
\<close>

partial_function (option) mask_loop :: "BaseProcess list \<Rightarrow> uint \<Rightarrow> uint \<Rightarrow> bool option" where
  "mask_loop steps pFlags msk =
     (if msk < push_bit 31 1
      then (if pFlags AND msk \<noteq> 0
            then (if have_step steps msk
                  then mask_loop steps pFlags (push_bit 1 msk)
                  else Some False)
            else mask_loop steps pFlags (push_bit 1 msk))
      else Some True)"

definition ValidateFlags :: "aiPostProcessSteps \<Rightarrow> Importer \<Rightarrow> uint \<Rightarrow> bool option" where
  "ValidateFlags F imp pFlags =
     (if \<not> global_ValidateFlags F pFlags then Some False
      else mask_loop (mPostProcessingSteps imp)
             (pFlags AND NOT (aiProcess_ValidateDataStructure F)) 1)"

subsection \<open>Reading a file\<close>

text \<open>The two probing loops of \<^verbatim>\<open>ReadFile\<close>: the first importer in the list that accepts.\<close>

function probe :: "BaseImporter list \<Rightarrow> string \<Rightarrow> IOSystem \<Rightarrow> bool \<Rightarrow> nat \<Rightarrow> BaseImporter option" where
  "probe importers pFile io checkSig a =
     (if a < length importers
      then (if CanRead (importers ! a) pFile io checkSig
            then Some (importers ! a)
            else probe importers pFile io checkSig (a + 1))
      else None)"
  by pat_completeness auto
termination
  by (relation "measure (\<lambda>(importers, pFile, io, checkSig, a). length importers - a)") auto

text \<open>\<^verbatim>\<open>pFile.find_last_of('.') != std::string::npos\<close>\<close>

definition has_dot :: "string \<Rightarrow> bool" where
  "has_dot pFile = (CHR ''.'' \<in> set pFile)"

definition select_importer :: "BaseImporter list \<Rightarrow> string \<Rightarrow> IOSystem \<Rightarrow> BaseImporter option" where
  "select_importer importers pFile io =
     (case probe importers pFile io False 0 of
        Some imp \<Rightarrow> Some imp
      | None \<Rightarrow> if has_dot pFile then probe importers pFile io True 0 else None)"

text \<open>
  Modelled from the spec: \<^verbatim>\<open>BaseProcess::ExecuteOnScene\<close>, whose body is not among the
  sources. The spec: a step reads the current scene, mutates it, and on a failure nulls
  the scene pointer and sets the error string. An exception that is not an import error
  leaves the call (\<open>Inl\<close>, with what it says). The call is made with a scene present.
\<close>

definition ExecuteOnScene :: "BaseProcess \<Rightarrow> Importer \<Rightarrow> string + Importer" where
  "ExecuteOnScene process imp =
     (case mScene imp of
        None \<Rightarrow> Inr imp
      | Some sc \<Rightarrow>
          (case Execute process (tables imp) sc of
             Returned sc' \<Rightarrow> Inr (imp\<lparr>mScene := Some sc'\<rparr>)
           | ImportErrorException msg \<Rightarrow> Inr (imp\<lparr>mErrorString := msg, mScene := None\<rparr>)
           | std_exception what \<Rightarrow> Inl what))"

text \<open>The loop over the post-processing steps; it stops when a step has nulled the scene.\<close>

fun run_steps :: "uint \<Rightarrow> BaseProcess list \<Rightarrow> Importer \<Rightarrow> string + Importer" where
  "run_steps pFlags [] imp = Inr imp"
| "run_steps pFlags (process # rest) imp =
     (case (if IsActive process pFlags then ExecuteOnScene process imp else Inr imp) of
        Inl what \<Rightarrow> Inl what
      | Inr imp' \<Rightarrow> if mScene imp' = None then Inr imp' else run_steps pFlags rest imp')"

text \<open>
  The body of the \<^verbatim>\<open>try\<close> block, once the handler has been dereferenced to \<open>io\<close>.
  \<open>Inl\<close> is a \<^verbatim>\<open>std::exception\<close> on its way to the \<^verbatim>\<open>catch\<close>. An importer that fails
  with an import error has \<^verbatim>\<open>BaseImporter::ReadFile\<close> return null and keep the text for
  \<^verbatim>\<open>GetErrorText\<close>, as the header documents it.
\<close>

definition ReadFile_try :: "aiPostProcessSteps \<Rightarrow> Steps \<Rightarrow> Host \<Rightarrow> IOSystem \<Rightarrow> string \<Rightarrow> uint \<Rightarrow> Importer \<Rightarrow> string + Importer" where
  "ReadFile_try F S h io pFile pFlags imp0 =
     (let imp1 = (if mScene imp0 \<noteq> None then FreeScene imp0 else imp0) in
      if \<not> Exists h io pFile
      then Inr (imp1\<lparr>mErrorString := ''Unable to open file \"'' @ pFile @ ''\".''\<rparr>)
      else
        (case select_importer (mImporter imp1) pFile io of
           None \<Rightarrow>
             Inr (imp1\<lparr>mErrorString :=
               ''No suitable reader found for the file format of file \"'' @ pFile @ ''\".''\<rparr>)
         | Some imp \<Rightarrow>
             (case InternReadFile imp (tables imp1) pFile io of
                std_exception what \<Rightarrow> Inl what
              | ImportErrorException msg \<Rightarrow> Inr (imp1\<lparr>mScene := None, mErrorString := msg\<rparr>)
              | Returned sc \<Rightarrow>
                  (let imp2 = imp1\<lparr>mScene := Some sc\<rparr> in
                   case (if pFlags AND aiProcess_ValidateDataStructure F \<noteq> 0
                         then ExecuteOnScene (ValidateDSProcess S) imp2 else Inr imp2) of
                     Inl what \<Rightarrow> Inl what
                   | Inr imp3 \<Rightarrow>
                       (case mScene imp3 of
                          None \<Rightarrow> Inr imp3
                        | Some sc3 \<Rightarrow>
                            run_steps pFlags (mPostProcessingSteps imp3)
                              (imp3\<lparr>mScene := Some (ScenePreprocessor S sc3)\<rparr>))))))"

text \<open>
  \<^verbatim>\<open>Importer::ReadFile\<close>. The handler pointer is dereferenced in the host's store; with
  no live object there the call has no defined behaviour (\<open>None\<close>). The \<^verbatim>\<open>catch\<close>
  block is the one of a build without the MSVC type names.
\<close>

definition ReadFile :: "aiPostProcessSteps \<Rightarrow> Steps \<Rightarrow> Host \<Rightarrow> string \<Rightarrow> uint \<Rightarrow> Importer \<Rightarrow> Importer option" where
  "ReadFile F S h pFile pFlags imp =
     (case objs h (mIOHandler imp) of
        None \<Rightarrow> None
      | Some io \<Rightarrow>
          (case ReadFile_try F S h io pFile pFlags imp of
             Inr imp' \<Rightarrow> Some imp'
           | Inl what \<Rightarrow> Some (imp\<lparr>mErrorString := ''std::exception: '' @ what, mScene := None\<rparr>)))"

text \<open>A sequence of \<^verbatim>\<open>ReadFile\<close> calls on one instance, each with its path and flags.\<close>

fun ReadFiles :: "aiPostProcessSteps \<Rightarrow> Steps \<Rightarrow> Host \<Rightarrow> (string \<times> uint) list \<Rightarrow> Importer \<Rightarrow> Importer option" where
  "ReadFiles F S h [] imp = Some imp"
| "ReadFiles F S h ((pFile, pFlags) # calls) imp =
     (case ReadFile F S h pFile pFlags imp of
        None \<Rightarrow> None
      | Some imp' \<Rightarrow> ReadFiles F S h calls imp')"

subsection \<open>Memory requirements\<close>

text \<open>\<^verbatim>\<open>AddNodeWeight\<close>: the node itself, its mesh indices, its child pointers, then the children.\<close>

fun AddNodeWeight :: "Layout \<Rightarrow> uint \<Rightarrow> aiNode \<Rightarrow> uint" where
  "AddNodeWeight L iScene (aiNode numMeshes children) =
     fold (\<lambda>child acc. AddNodeWeight L acc child) children
       (iScene + sizeof_aiNode L
          + sizeof_unsigned_int L * numMeshes
          + sizeof_pointer L * of_nat (length children))"

text \<open>
  The loops over the colour sets and the texture coordinate sets of a mesh: they stop at
  the first set the mesh does not have.
\<close>

function sets_loop :: "(nat \<Rightarrow> bool) \<Rightarrow> nat \<Rightarrow> uint \<Rightarrow> nat \<Rightarrow> uint \<Rightarrow> uint" where
  "sets_loop has bound bytes a acc =
     (if a < bound
      then (if has a then sets_loop has bound bytes (a + 1) (acc + bytes) else acc)
      else acc)"
  by pat_completeness auto
termination
  by (relation "measure (\<lambda>(has, bound, bytes, a, acc). bound - a)") auto

definition bone_weight :: "Layout \<Rightarrow> aiBone \<Rightarrow> uint \<Rightarrow> uint" where
  "bone_weight L bone acc = acc + sizeof_aiBone L + mNumWeights bone * sizeof_aiVertexWeight L"

text \<open>The body of the loop over the meshes.\<close>

definition mesh_weight :: "Layout \<Rightarrow> aiMesh \<Rightarrow> uint \<Rightarrow> uint" where
  "mesh_weight L mesh acc0 =
     (let acc1 = acc0 + sizeof_aiMesh L;
          acc2 = (if HasPositions mesh then acc1 + sizeof_aiVector3D L * mNumVertices mesh else acc1);
          acc3 = (if HasNormals mesh then acc2 + sizeof_aiVector3D L * mNumVertices mesh else acc2);
          acc4 = (if HasTangentsAndBitangents mesh
                  then acc3 + sizeof_aiVector3D L * mNumVertices mesh * 2 else acc3);
          acc5 = sets_loop (HasVertexColors mesh) (AI_MAX_NUMBER_OF_COLOR_SETS L)
                   (sizeof_aiColor4D L * mNumVertices mesh) 0 acc4;
          acc6 = sets_loop (HasTextureCoords mesh) (AI_MAX_NUMBER_OF_TEXTURECOORDS L)
                   (sizeof_aiVector3D L * mNumVertices mesh) 0 acc5;
          acc7 = (if HasBones mesh
                  then fold (bone_weight L) (mBones mesh)
                         (acc6 + sizeof_pointer L * of_nat (length (mBones mesh)))
                  else acc6)
      in acc7 + (sizeof_aiFace L + 3 * sizeof_unsigned_int L) * mNumFaces mesh)"

definition texture_weight :: "Layout \<Rightarrow> aiTexture \<Rightarrow> uint \<Rightarrow> uint" where
  "texture_weight L pc acc =
     (if mHeight pc \<noteq> 0
      then acc + sizeof_aiTexture L + 4 * mHeight pc * mWidth pc
      else acc + sizeof_aiTexture L + mWidth pc)"

definition material_weight :: "Layout \<Rightarrow> aiMaterial \<Rightarrow> uint \<Rightarrow> uint" where
  "material_weight L pc acc =
     fold (\<lambda>prop acc'. acc' + mDataLength prop) (mProperties pc)
       (acc + sizeof_aiMaterial L + mNumAllocated pc * sizeof_pointer L)"

text \<open>A read past the end of an array has no defined behaviour: it is an error of the walk.\<close>

datatype walk_error = OutOfBounds

definition channel_weight :: "Layout \<Rightarrow> aiNodeAnim \<Rightarrow> uint \<Rightarrow> uint" where
  "channel_weight L pc2 acc =
     acc + sizeof_aiNodeAnim L
       + of_nat (length (mPositionKeys pc2)) * sizeof_aiVectorKey L
       + of_nat (length (mScalingKeys pc2)) * sizeof_aiVectorKey L
       + of_nat (length (mRotationKeys pc2)) * sizeof_aiQuatKey L"

text \<open>
  The loop over the channels of the animation \<open>pc\<close>, which is the \<open>i\<close>-th animation of the
  scene. \<open>a\<close> counts the channels; the channel read is \<^verbatim>\<open>pc->mChannels[i]\<close>.
\<close>

function channels_loop :: "Layout \<Rightarrow> aiAnimation \<Rightarrow> nat \<Rightarrow> nat \<Rightarrow> uint \<Rightarrow> walk_error + uint" where
  "channels_loop L pc i a acc =
     (if a < length (mChannels pc)
      then (if i < length (mChannels pc)
            then channels_loop L pc i (a + 1) (channel_weight L (mChannels pc ! i) acc)
            else Inl OutOfBounds)
      else Inr acc)"
  by pat_completeness auto
termination
  by (relation "measure (\<lambda>(L, pc, i, a, acc). length (mChannels pc) - a)") auto

function animations_loop :: "Layout \<Rightarrow> aiAnimation list \<Rightarrow> nat \<Rightarrow> uint \<Rightarrow> walk_error + uint" where
  "animations_loop L anims i acc =
     (if i < length anims
      then (case channels_loop L (anims ! i) i 0 (acc + sizeof_aiAnimation L) of
              Inl e \<Rightarrow> Inl e
            | Inr acc' \<Rightarrow> animations_loop L anims (i + 1) acc')
      else Inr acc)"
  by pat_completeness auto
termination
  by (relation "measure (\<lambda>(L, anims, i, acc). length anims - i)") auto

text \<open>
  \<^verbatim>\<open>Importer::GetMemoryRequirements\<close>, a \<^verbatim>\<open>const\<close> member: it gives the filled
  \<^verbatim>\<open>aiMemoryInfo\<close> and leaves the dispatcher as it is.
\<close>

definition GetMemoryRequirements :: "Layout \<Rightarrow> Importer \<Rightarrow> walk_error + aiMemoryInfo" where
  "GetMemoryRequirements L imp =
     (let in0 = \<lparr>textures = 0, materials = 0, meshes = 0, nodes = 0, animations = 0,
                 cameras = 0, lights = 0, total = 0\<rparr> in
      case mScene imp of
        None \<Rightarrow> Inr in0
      | Some sc \<Rightarrow>
          (let in1 = in0\<lparr>total := sizeof_aiScene L\<rparr>;
               in2 = in1\<lparr>meshes := fold (mesh_weight L) (mMeshes sc) (meshes in1)\<rparr>;
               in3 = in2\<lparr>total := total in2 + meshes in2\<rparr>;
               in4 = in3\<lparr>textures := fold (texture_weight L) (mTextures sc) (textures in3)\<rparr>;
               in5 = in4\<lparr>total := total in4 + textures in4\<rparr>
           in case animations_loop L (mAnimations sc) 0 (animations in5) of
                Inl e \<Rightarrow> Inl e
              | Inr anim_bytes \<Rightarrow>
                  (let in6 = in5\<lparr>animations := anim_bytes\<rparr>;
                       in7 = in6\<lparr>total := total in6 + animations in6\<rparr>;
                       in8 = in7\<lparr>cameras := sizeof_aiCamera L * mNumCameras sc\<rparr>;
                       in9 = in8\<lparr>total := total in8 + cameras in8\<rparr>;
                       in10 = in9\<lparr>lights := sizeof_aiLight L * mNumLights sc\<rparr>;
                       in11 = in10\<lparr>total := total in10 + lights in10\<rparr>;
                       in12 = in11\<lparr>nodes := AddNodeWeight L (nodes in11) (mRootNode sc)\<rparr>;
                       in13 = in12\<lparr>total := total in12 + nodes in12\<rparr>;
                       in14 = in13\<lparr>materials :=
                                fold (material_weight L) (mMaterials sc) (materials in13)\<rparr>
                   in Inr (in14\<lparr>total := total in14 + materials in14\<rparr>))))"

text \<open>
  The walk the spec asks for, with each animation's channels read by their own index.
  It follows the spec's words, for the comparison with \<open>animations_loop\<close>.
\<close>

definition animations_by_channel_index :: "Layout \<Rightarrow> aiAnimation list \<Rightarrow> uint \<Rightarrow> uint" where
  "animations_by_channel_index L anims acc =
     fold (\<lambda>pc acc'. fold (channel_weight L) (mChannels pc) (acc' + sizeof_aiAnimation L)) anims acc"

section \<open>The animation evaluator of the viewer\<close>

record AnimEvaluator =
  mAnim :: aiAnimation
  mLastTime :: real
  mLastPositions :: "(nat \<times> nat \<times> nat) list"
  mTransforms :: "aiMatrix4x4 list"

definition new_AnimEvaluator :: "aiAnimation \<Rightarrow> AnimEvaluator" where
  "new_AnimEvaluator pAnim =
     \<lparr>mAnim = pAnim, mLastTime = 0,
      mLastPositions = replicate (length (mChannels pAnim)) (0, 0, 0),
      mTransforms = []\<rparr>"

text \<open>\<^verbatim>\<open>fmod\<close> of the C library: the remainder of the division truncated towards zero.\<close>

definition fmod :: "real \<Rightarrow> real \<Rightarrow> real" where
  "fmod a b = a - b * of_int (if 0 \<le> a / b then \<lfloor>a / b\<rfloor> else \<lceil>a / b\<rceil>)"

text \<open>The first lines of \<^verbatim>\<open>Evaluate\<close>: the time in ticks, mapped into the duration.\<close>

definition ticks_time :: "aiAnimation \<Rightarrow> real \<Rightarrow> real" where
  "ticks_time anim pTime0 =
     (let ticksPerSecond = (if mTicksPerSecond anim \<noteq> 0 then mTicksPerSecond anim else 25);
          pTime = pTime0 * ticksPerSecond
      in if mDuration anim > 0 then fmod pTime (mDuration anim) else 0)"

text \<open>
  The search for the present frame in one key array, from \<open>frame\<close> on:
  \<^verbatim>\<open>while (frame < n - 1) { if (time < keys[frame+1].mTime) break; frame++; }\<close>
  It is run on a non-empty array only.
\<close>

function find_frame :: "real \<Rightarrow> 'v aiKey list \<Rightarrow> nat \<Rightarrow> nat" where
  "find_frame time keys frame =
     (if frame < length keys - 1
      then (if time < mTime (keys ! (frame + 1)) then frame
            else find_frame time keys (frame + 1))
      else frame)"
  by pat_completeness auto
termination
  by (relation "measure (\<lambda>(time, keys, frame). length keys - 1 - frame)") auto

text \<open>
  One track of one channel: the value at the present frame and the frame to remember.
  An empty track keeps the default value and the remembered frame.
\<close>

definition track :: "real \<Rightarrow> real \<Rightarrow> 'v aiKey list \<Rightarrow> nat \<Rightarrow> 'v \<Rightarrow> 'v \<times> nat" where
  "track time lastTime keys cached dflt =
     (if length keys > 0
      then (let frame = find_frame time keys (if time \<ge> lastTime then cached else 0)
            in (mValue (keys ! frame), frame))
      else (dflt, cached))"

text \<open>
  The matrix of one channel. \<open>toMatrix\<close> is the conversion of the rotation to a 4x4
  matrix (\<^verbatim>\<open>aiMatrix4x4(presentRotation.GetMatrix())\<close>, of the math headers).
\<close>

definition build_matrix :: "(aiQuaternion \<Rightarrow> aiMatrix4x4) \<Rightarrow> aiVector3D \<Rightarrow> aiQuaternion \<Rightarrow> aiVector3D \<Rightarrow> aiMatrix4x4" where
  "build_matrix toMatrix presentPosition presentRotation presentScaling =
     (let mat = toMatrix presentRotation in
      mat\<lparr>a1 := a1 mat * vec_x presentScaling, b1 := b1 mat * vec_x presentScaling,
          c1 := c1 mat * vec_x presentScaling,
          a2 := a2 mat * vec_y presentScaling, b2 := b2 mat * vec_y presentScaling,
          c2 := c2 mat * vec_y presentScaling,
          a3 := a3 mat * vec_z presentScaling, b3 := b3 mat * vec_z presentScaling,
          c3 := c3 mat * vec_z presentScaling,
          a4 := vec_x presentPosition, b4 := vec_y presentPosition,
          c4 := vec_z presentPosition\<rparr>)"

text \<open>The body of the loop over the channels: the new remembered frames and the matrix.\<close>

definition eval_channel :: "(aiQuaternion \<Rightarrow> aiMatrix4x4) \<Rightarrow> real \<Rightarrow> real \<Rightarrow> aiNodeAnim \<times> (nat \<times> nat \<times> nat) \<Rightarrow> (nat \<times> nat \<times> nat) \<times> aiMatrix4x4" where
  "eval_channel toMatrix time lastTime cl =
     (let (channel, (l0, l1, l2)) = cl;
          (presentPosition, f0) =
             track time lastTime (mPositionKeys channel) l0 \<lparr>vec_x = 0, vec_y = 0, vec_z = 0\<rparr>;
          (presentRotation, f1) =
             track time lastTime (mRotationKeys channel) l1
               \<lparr>quat_w = 1, quat_x = 0, quat_y = 0, quat_z = 0\<rparr>;
          (presentScaling, f2) =
             track time lastTime (mScalingKeys channel) l2 \<lparr>vec_x = 1, vec_y = 1, vec_z = 1\<rparr>
      in ((f0, f1, f2), build_matrix toMatrix presentPosition presentRotation presentScaling))"

text \<open>
  \<^verbatim>\<open>AnimEvaluator::Evaluate\<close>. The constructor sizes \<open>mLastPositions\<close> to the channels,
  so the loop over the channel index pairs each channel with its remembered frames.
\<close>

definition Evaluate :: "(aiQuaternion \<Rightarrow> aiMatrix4x4) \<Rightarrow> real \<Rightarrow> AnimEvaluator \<Rightarrow> AnimEvaluator" where
  "Evaluate toMatrix pTime ev =
     (let time = ticks_time (mAnim ev) pTime;
          rs = map (eval_channel toMatrix time (mLastTime ev))
                 (zip (mChannels (mAnim ev)) (mLastPositions ev))
      in ev\<lparr>mLastPositions := map fst rs, mTransforms := map snd rs, mLastTime := time\<rparr>)"

text \<open>
  The reference search, following the claim's words: every track is searched from frame
  0, whatever was evaluated before.
\<close>

definition reference_track :: "real \<Rightarrow> 'v aiKey list \<Rightarrow> 'v \<Rightarrow> 'v" where
  "reference_track time keys dflt =
     (if length keys > 0 then mValue (keys ! find_frame time keys 0) else dflt)"

definition reference_channel :: "(aiQuaternion \<Rightarrow> aiMatrix4x4) \<Rightarrow> real \<Rightarrow> aiNodeAnim \<Rightarrow> aiMatrix4x4" where
  "reference_channel toMatrix time channel =
     build_matrix toMatrix
       (reference_track time (mPositionKeys channel) \<lparr>vec_x = 0, vec_y = 0, vec_z = 0\<rparr>)
       (reference_track time (mRotationKeys channel)
          \<lparr>quat_w = 1, quat_x = 0, quat_y = 0, quat_z = 0\<rparr>)
       (reference_track time (mScalingKeys channel) \<lparr>vec_x = 1, vec_y = 1, vec_z = 1\<rparr>)"

definition reference_transforms :: "(aiQuaternion \<Rightarrow> aiMatrix4x4) \<Rightarrow> aiAnimation \<Rightarrow> real \<Rightarrow> aiMatrix4x4 list" where
  "reference_transforms toMatrix anim pTime =
     map (reference_channel toMatrix (ticks_time anim pTime)) (mChannels anim)"

section \<open>Vocabulary of the properties and example inputs\<close>

text \<open>A plug-in's failure says why: the text of an import error is not empty.\<close>

definition says_why :: "'a outcome \<Rightarrow> bool" where
  "says_why r = (case r of ImportErrorException msg \<Rightarrow> msg \<noteq> [] | _ \<Rightarrow> True)"

text \<open>What \<^verbatim>\<open>ReadFile\<close> never writes: the plug-in lists and the handler pointer.\<close>

definition kept :: "Importer \<Rightarrow> Importer \<Rightarrow> bool" where
  "kept imp imp' =
     (mImporter imp' = mImporter imp \<and> mPostProcessingSteps imp' = mPostProcessingSteps imp
      \<and> mIOHandler imp' = mIOHandler imp)"

text \<open>Every call of the sequence returned a scene.\<close>

fun all_succeed :: "aiPostProcessSteps \<Rightarrow> Steps \<Rightarrow> Host \<Rightarrow> (string \<times> uint) list \<Rightarrow> Importer \<Rightarrow> bool" where
  "all_succeed F S h [] imp = True"
| "all_succeed F S h ((pFile, pFlags) # calls) imp =
     (case ReadFile F S h pFile pFlags imp of
        None \<Rightarrow> False
      | Some imp' \<Rightarrow> mScene imp' \<noteq> None \<and> all_succeed F S h calls imp')"

text \<open>
  A host with three files, the flag bits as the public header numbers them, a validation
  step and a preprocessor that accept every scene, an importer for the extension
  \<^verbatim>\<open>.obj\<close>, an importer that claims every file by signature and fails to decode it, and
  a triangulation step.
\<close>

definition host0 :: Host where
  "host0 = \<lparr>objs = Map.empty, brk = 0,
            files = (\<lambda>pFile. pFile = ''cube.obj'' \<or> pFile = ''scene.bin'' \<or> pFile = ''README'')\<rparr>"

definition flags0 :: aiPostProcessSteps where
  "flags0 = \<lparr>aiProcess_GenNormals = 0x20, aiProcess_GenSmoothNormals = 0x40,
             aiProcess_ValidateDataStructure = 0x400\<rparr>"

definition steps0 :: Steps where
  "steps0 = \<lparr>ValidateDSProcess = \<lparr>IsActive = (\<lambda>pFlags. pFlags AND 0x400 \<noteq> 0),
                                   Execute = (\<lambda>t sc. Returned sc)\<rparr>,
             ScenePreprocessor = (\<lambda>sc. sc)\<rparr>"

definition scene0 :: aiScene where
  "scene0 = \<lparr>mFlags = 0, mRootNode = aiNode 0 [], mMeshes = [], mMaterials = [],
             mAnimations = [], mTextures = [], mNumCameras = 0, mNumLights = 0\<rparr>"

definition obj_importer :: BaseImporter where
  "obj_importer = \<lparr>CanRead = (\<lambda>pFile io checkSig. drop (length pFile - 4) pFile = ''.obj''),
                   InternReadFile = (\<lambda>t pFile io. Returned scene0)\<rparr>"

definition magic_importer :: BaseImporter where
  "magic_importer = \<lparr>CanRead = (\<lambda>pFile io checkSig. checkSig),
                     InternReadFile = (\<lambda>t pFile io. ImportErrorException ''bad magic'')\<rparr>"

definition triangulate_step :: BaseProcess where
  "triangulate_step = \<lparr>IsActive = (\<lambda>pFlags. pFlags AND 0x8 \<noteq> 0),
                       Execute = (\<lambda>t sc. Returned sc)\<rparr>"

definition importer0 :: Importer where
  "importer0 = fst (new_Importer [obj_importer, magic_importer] [triangulate_step] host0)"

definition host1 :: Host where
  "host1 = snd (new_Importer [obj_importer, magic_importer] [triangulate_step] host0)"

text \<open>
  The channel reads of the memory walk stay inside the arrays: the animation at position
  \<open>i\<close> of the scene has no channel, or more than \<open>i\<close> of them.
\<close>

definition channel_reads_in_range :: "aiScene \<Rightarrow> bool" where
  "channel_reads_in_range sc =
     list_all (\<lambda>i. mChannels (mAnimations sc ! i) = []
                  \<or> i < length (mChannels (mAnimations sc ! i)))
       [0..<length (mAnimations sc)]"

text \<open>A layout with sizes a 32-bit build could have, and scenes with animations.\<close>

definition layout0 :: Layout where
  "layout0 = \<lparr>sizeof_aiScene = 56, sizeof_aiMesh = 100, sizeof_aiVector3D = 12,
     sizeof_aiColor4D = 16, sizeof_pointer = 4, sizeof_unsigned_int = 4, sizeof_aiBone = 1100,
     sizeof_aiVertexWeight = 8, sizeof_aiFace = 8, sizeof_aiTexture = 24,
     sizeof_aiAnimation = 1056, sizeof_aiNodeAnim = 1052, sizeof_aiVectorKey = 24,
     sizeof_aiQuatKey = 24, sizeof_aiCamera = 1080, sizeof_aiLight = 1100, sizeof_aiNode = 1120,
     sizeof_aiMaterial = 12, AI_MAX_NUMBER_OF_COLOR_SETS = 4,
     AI_MAX_NUMBER_OF_TEXTURECOORDS = 4\<rparr>"

definition key0 :: aiVectorKey where
  "key0 = \<lparr>mTime = 0, mValue = \<lparr>vec_x = 0, vec_y = 0, vec_z = 0\<rparr>\<rparr>"

definition channel_of :: "nat \<Rightarrow> aiNodeAnim" where
  "channel_of n = \<lparr>mPositionKeys = replicate n key0, mRotationKeys = [], mScalingKeys = []\<rparr>"

text \<open>One animation with two channels, of one and of three position keys.\<close>

definition scene_two_channels :: aiScene where
  "scene_two_channels =
     scene0\<lparr>mAnimations := [\<lparr>mDuration = 10, mTicksPerSecond = 0,
                               mChannels = [channel_of 1, channel_of 3]\<rparr>]\<rparr>"

text \<open>Two animations with one channel each.\<close>

definition scene_two_animations :: aiScene where
  "scene_two_animations =
     scene0\<lparr>mAnimations :=
       [\<lparr>mDuration = 10, mTicksPerSecond = 0, mChannels = [channel_of 1]\<rparr>,
        \<lparr>mDuration = 10, mTicksPerSecond = 0, mChannels = [channel_of 1]\<rparr>]\<rparr>"

text \<open>
  A scene with something of every category: a mesh of 8 vertices and 12 faces with
  positions, normals, one colour set and a bone, a material, a raw texture, an animation
  with one channel, a camera, two lights and a root node with a child.
\<close>

definition scene1 :: aiScene where
  "scene1 =
     \<lparr>mFlags = 0,
      mRootNode = aiNode 0 [aiNode 1 []],
      mMeshes = [\<lparr>mNumVertices = 8, mNumFaces = 12, HasPositions = True, HasNormals = True,
                  HasTangentsAndBitangents = False, HasVertexColors = (\<lambda>a. a = 0),
                  HasTextureCoords = (\<lambda>a. False), HasBones = True,
                  mBones = [\<lparr>mNumWeights = 8\<rparr>]\<rparr>],
      mMaterials = [\<lparr>mNumAllocated = 5, mProperties = [\<lparr>mDataLength = 16\<rparr>]\<rparr>],
      mAnimations = [\<lparr>mDuration = 10, mTicksPerSecond = 0, mChannels = [channel_of 2]\<rparr>],
      mTextures = [\<lparr>mWidth = 2, mHeight = 2\<rparr>],
      mNumCameras = 1, mNumLights = 2\<rparr>"

text \<open>
  What the evaluator remembers about a key array is sound for the time \<open>lastTime\<close>: the
  remembered frame is a frame of the array, and every key up to it is at or before
  \<open>lastTime\<close>.
\<close>

definition cache_ok :: "real \<Rightarrow> 'v aiKey list \<Rightarrow> nat \<Rightarrow> bool" where
  "cache_ok lastTime keys cached =
     (cached \<le> length keys - 1 \<and> (\<forall>f<cached. mTime (keys ! (f + 1)) \<le> lastTime))"

definition channel_cache_ok :: "real \<Rightarrow> aiNodeAnim \<Rightarrow> nat \<times> nat \<times> nat \<Rightarrow> bool" where
  "channel_cache_ok lastTime channel cached =
     (case cached of (l0, l1, l2) \<Rightarrow>
        cache_ok lastTime (mPositionKeys channel) l0
        \<and> cache_ok lastTime (mRotationKeys channel) l1
        \<and> cache_ok lastTime (mScalingKeys channel) l2)"

definition evaluator_ok :: "aiAnimation \<Rightarrow> AnimEvaluator \<Rightarrow> bool" where
  "evaluator_ok anim ev =
     (mAnim ev = anim
      \<and> list_all2 (channel_cache_ok (mLastTime ev)) (mChannels anim) (mLastPositions ev))"

text \<open>The frames a search from frame 0 finds in the three key arrays of a channel.\<close>

definition reference_frames :: "real \<Rightarrow> aiNodeAnim \<Rightarrow> nat \<times> nat \<times> nat" where
  "reference_frames time channel =
     (find_frame time (mPositionKeys channel) 0,
      find_frame time (mRotationKeys channel) 0,
      find_frame time (mScalingKeys channel) 0)"

text \<open>
  An animation of 100 ticks without a rate of its own: one channel with position keys at
  the ticks 0, 40 and 60 and one scaling key. The rotation is turned into a matrix that
  only keeps its real part on the diagonal.
\<close>

definition position_key :: "real \<Rightarrow> real \<Rightarrow> aiVectorKey" where
  "position_key time px = \<lparr>mTime = time, mValue = \<lparr>vec_x = px, vec_y = 0, vec_z = 0\<rparr>\<rparr>"

definition anim0 :: aiAnimation where
  "anim0 = \<lparr>mDuration = 100, mTicksPerSecond = 0,
            mChannels = [\<lparr>mPositionKeys = [position_key 0 1, position_key 40 2, position_key 60 3],
                          mRotationKeys = [],
                          mScalingKeys = [\<lparr>mTime = 0, mValue = \<lparr>vec_x = 2, vec_y = 2, vec_z = 2\<rparr>\<rparr>]\<rparr>]\<rparr>"

definition toMatrix0 :: "aiQuaternion \<Rightarrow> aiMatrix4x4" where
  "toMatrix0 q = \<lparr>a1 = quat_w q, a2 = 0, a3 = 0, a4 = 0,
                  b1 = 0, b2 = quat_w q, b3 = 0, b4 = 0,
                  c1 = 0, c2 = 0, c3 = quat_w q, c4 = 0,
                  d1 = 0, d2 = 0, d3 = 0, d4 = 1\<rparr>"

section \<open>Properties\<close>

text \<open>The loops are unfolded by hand, one iteration at a time.\<close>

declare probe.simps [simp del] sets_loop.simps [simp del] channels_loop.simps [simp del]
  animations_loop.simps [simp del] find_frame.simps [simp del]

subsection \<open>The example inputs\<close>

lemma importer0_simps:
  "mIOHandler importer0 = 0"
  "mImporter importer0 = [obj_importer, magic_importer]"
  "mPostProcessingSteps importer0 = [triangulate_step]"
  "mScene importer0 = None"
  "mErrorString importer0 = []"
  "mIsDefaultHandler importer0 = True"
  by (simp_all add: importer0_def new_Importer_def new_IOSystem_def host0_def)

lemma host1_simps:
  "objs host1 0 = Some DefaultIOSystem"
  "files host1 = (\<lambda>pFile. pFile = ''cube.obj'' \<or> pFile = ''scene.bin'' \<or> pFile = ''README'')"
  by (simp_all add: host1_def new_Importer_def new_IOSystem_def host0_def)

lemma new_Importer_tables:
  "mIntProperties (fst (new_Importer importers steps h)) = Map.empty"
  "mFloatProperties (fst (new_Importer importers steps h)) = Map.empty"
  "mStringProperties (fst (new_Importer importers steps h)) = Map.empty"
  by (simp_all add: new_Importer_def new_IOSystem_def)

subsection \<open>The property tables\<close>

lemma fold_write_integer_absent:
  "\<forall>v. WriteInteger k v \<notin> set ws \<Longrightarrow>
   mIntProperties (fold write_property ws imp) k = mIntProperties imp k"
proof (induction ws arbitrary: imp)
  case Nil
  then show ?case by simp
next
  case (Cons w ws)
  then show ?case
    by (cases w)
      (auto simp: SetPropertyInteger_def SetPropertyFloat_def SetPropertyString_def
        SetGenericProperty_def)
qed

lemma fold_write_float_absent:
  "\<forall>v. WriteFloat k v \<notin> set ws \<Longrightarrow>
   mFloatProperties (fold write_property ws imp) k = mFloatProperties imp k"
proof (induction ws arbitrary: imp)
  case Nil
  then show ?case by simp
next
  case (Cons w ws)
  then show ?case
    by (cases w)
      (auto simp: SetPropertyInteger_def SetPropertyFloat_def SetPropertyString_def
        SetGenericProperty_def)
qed

lemma fold_write_string_absent:
  "\<forall>v. WriteString k v \<notin> set ws \<Longrightarrow>
   mStringProperties (fold write_property ws imp) k = mStringProperties imp k"
proof (induction ws arbitrary: imp)
  case Nil
  then show ?case by simp
next
  case (Cons w ws)
  then show ?case
    by (cases w)
      (auto simp: SetPropertyInteger_def SetPropertyFloat_def SetPropertyString_def
        SetGenericProperty_def)
qed

text \<open>
  C8. A property that was set is read back, whatever default the caller gives; on a new
  dispatcher, after any sequence of writes that never sets the key \<open>k\<close> in a table, the
  get on that table returns the caller's default. This holds for each of the integer,
  float and string tables, a write to one leaving the other two alone (the sequence may
  write \<open>k\<close> in the other tables).
\<close>

theorem property_round_trip:
  "GetPropertyInteger (SetPropertyInteger k v imp) k d = v
   \<and> GetPropertyFloat (SetPropertyFloat k fv imp) k fd = fv
   \<and> GetPropertyString (SetPropertyString k sv imp) k sd = sv
   \<and> ((\<forall>v'. WriteInteger k v' \<notin> set ws) \<longrightarrow>
        GetPropertyInteger (fold write_property ws (fst (new_Importer importers steps h))) k d = d)
   \<and> ((\<forall>v'. WriteFloat k v' \<notin> set ws) \<longrightarrow>
        GetPropertyFloat (fold write_property ws (fst (new_Importer importers steps h))) k fd = fd)
   \<and> ((\<forall>v'. WriteString k v' \<notin> set ws) \<longrightarrow>
        GetPropertyString (fold write_property ws (fst (new_Importer importers steps h))) k sd = sd)"
  by (simp add: GetPropertyInteger_def GetPropertyFloat_def GetPropertyString_def
      SetPropertyInteger_def SetPropertyFloat_def SetPropertyString_def
      SetGenericProperty_def GetGenericProperty_def
      fold_write_integer_absent fold_write_float_absent fold_write_string_absent
      new_Importer_tables)

theorem property_round_trip_witness:
  "GetPropertyInteger (SetPropertyInteger ''k'' 7 importer0) ''k'' (- 1) = 7
   \<and> (\<forall>v'. WriteInteger ''k'' v'
          \<notin> set [WriteFloat ''k'' 2, WriteInteger ''j'' 3, WriteString ''k'' ''s''])
   \<and> GetPropertyInteger
        (fold write_property [WriteFloat ''k'' 2, WriteInteger ''j'' 3, WriteString ''k'' ''s'']
           importer0) ''k'' (- 1) = - 1
   \<and> (\<forall>v'. WriteFloat ''k'' v' \<notin> set [WriteInteger ''k'' 3, WriteString ''k'' ''s''])
   \<and> GetPropertyFloat
        (fold write_property [WriteInteger ''k'' 3, WriteString ''k'' ''s''] importer0) ''k'' 10 = 10
   \<and> (\<forall>v'. WriteString ''k'' v' \<notin> set [WriteFloat ''k'' 2, WriteInteger ''k'' 3])
   \<and> GetPropertyString
        (fold write_property [WriteFloat ''k'' 2, WriteInteger ''k'' 3] importer0) ''k'' ''none''
      = ''none''"
  using
    property_round_trip [of "''k''" 7 importer0 "- 1" 0 0 "[]" "[]"
      "[WriteFloat ''k'' 2, WriteInteger ''j'' 3, WriteString ''k'' ''s'']"
      "[obj_importer, magic_importer]" "[triangulate_step]" host0]
    property_round_trip [of "''k''" 7 importer0 "- 1" 0 10 "[]" "[]"
      "[WriteInteger ''k'' 3, WriteString ''k'' ''s'']"
      "[obj_importer, magic_importer]" "[triangulate_step]" host0]
    property_round_trip [of "''k''" 7 importer0 "- 1" 0 10 "[]" "''none''"
      "[WriteFloat ''k'' 2, WriteInteger ''k'' 3]"
      "[obj_importer, magic_importer]" "[triangulate_step]" host0]
  by (simp add: importer0_def)

subsection \<open>The I/O handler\<close>

text \<open>
  C7 as stated fails: on a new dispatcher, the caller passes the handler the dispatcher
  already holds (address 0, the default handler). The call changes nothing:
  \<^verbatim>\<open>IsDefaultIOHandler()\<close> still returns true, and the handler is still live.
\<close>

theorem SetIOHandler_installed_handler_counterexample:
  "GetIOHandler importer0 = 0
   \<and> IsDefaultIOHandler (fst (SetIOHandler (Some 0) (importer0, host1))) = True
   \<and> objs (snd (SetIOHandler (Some 0) (importer0, host1))) 0 = Some DefaultIOSystem"
  by (simp add: SetIOHandler_def GetIOHandler_def IsDefaultIOHandler_def importer0_simps
      host1_simps)

text \<open>
  C7, amended. After \<^verbatim>\<open>SetIOHandler(null)\<close> the dispatcher holds a live default
  file-system handler and reports the default. After \<^verbatim>\<open>SetIOHandler(H)\<close> with a
  non-null \<open>H\<close> the dispatcher holds \<open>H\<close>; when \<open>H\<close> is not the handler it held before,
  it reports a custom handler, the handler it held before is deleted and \<open>H\<close> is
  untouched; when \<open>H\<close> is the handler it already holds, nothing changes (neither the
  flag nor the store).
\<close>

theorem SetIOHandler_semantics:
  "(case SetIOHandler None (imp, h) of (imp', h') \<Rightarrow>
      objs h' (GetIOHandler imp') = Some DefaultIOSystem \<and> IsDefaultIOHandler imp' = True)
   \<and> (case SetIOHandler (Some H) (imp, h) of (imp', h') \<Rightarrow>
        GetIOHandler imp' = H
        \<and> (if H = GetIOHandler imp
           then imp' = imp \<and> h' = h
           else IsDefaultIOHandler imp' = False
                \<and> objs h' (GetIOHandler imp) = None \<and> objs h' H = objs h H))"
  by (simp add: SetIOHandler_def new_IOSystem_def delete_IOSystem_def GetIOHandler_def
      IsDefaultIOHandler_def split: prod.splits)

theorem SetIOHandler_semantics_witness:
  "objs (snd (SetIOHandler None (importer0, host1)))
       (GetIOHandler (fst (SetIOHandler None (importer0, host1)))) = Some DefaultIOSystem
   \<and> IsDefaultIOHandler (fst (SetIOHandler None (importer0, host1))) = True
   \<and> GetIOHandler (fst (SetIOHandler (Some 5) (importer0, host1))) = 5
   \<and> IsDefaultIOHandler (fst (SetIOHandler (Some 5) (importer0, host1))) = False
   \<and> objs (snd (SetIOHandler (Some 5) (importer0, host1))) 0 = None"
  using SetIOHandler_semantics [of importer0 host1 5]
  by (simp add: GetIOHandler_def importer0_simps split: prod.splits)

subsection \<open>Reading a file: the probing loops\<close>

lemma probe_drop:
  "probe importers pFile io checkSig a =
     find (\<lambda>i. CanRead i pFile io checkSig) (drop a importers)"
proof (induction importers pFile io checkSig a rule: probe.induct)
  case (1 importers pFile io checkSig a)
  show ?case
  proof (cases "a < length importers")
    case True
    then have d: "drop a importers = importers ! a # drop (Suc a) importers"
      by (simp add: Cons_nth_drop_Suc)
    show ?thesis
      using True 1 by (subst probe.simps) (simp add: d)
  next
    case False
    then show ?thesis by (subst probe.simps) simp
  qed
qed

lemma probe_find:
  "probe importers pFile io checkSig 0 = find (\<lambda>i. CanRead i pFile io checkSig) importers"
  by (simp add: probe_drop)

lemma probe_mem:
  "probe importers pFile io checkSig a = Some i \<Longrightarrow> i \<in> set importers"
  by (auto simp: probe_drop find_Some_iff dest: in_set_dropD)

lemma select_importer_mem:
  "select_importer importers pFile io = Some i \<Longrightarrow> i \<in> set importers"
  by (auto simp: select_importer_def split: option.splits if_splits dest: probe_mem)

lemma select_importer_find:
  "select_importer importers pFile io =
     (case find (\<lambda>i. CanRead i pFile io False) importers of
        Some i \<Rightarrow> Some i
      | None \<Rightarrow> if CHR ''.'' \<in> set pFile
                 then find (\<lambda>i. CanRead i pFile io True) importers else None)"
  by (simp add: select_importer_def probe_find has_dot_def split: option.splits)

subsection \<open>Reading a file: the paths through the body\<close>

lemma ReadFile_try_missing:
  "\<not> Exists h io pFile \<Longrightarrow>
   ReadFile_try F S h io pFile pFlags imp =
     Inr (imp\<lparr>mScene := None, mErrorString := ''Unable to open file \"'' @ pFile @ ''\".''\<rparr>)"
  by (simp add: ReadFile_try_def FreeScene_def Let_def)

lemma ReadFile_try_no_reader:
  "Exists h io pFile \<Longrightarrow> select_importer (mImporter imp) pFile io = None \<Longrightarrow>
   ReadFile_try F S h io pFile pFlags imp =
     Inr (imp\<lparr>mScene := None, mErrorString :=
       ''No suitable reader found for the file format of file \"'' @ pFile @ ''\".''\<rparr>)"
  by (simp add: ReadFile_try_def FreeScene_def Let_def)

lemma ReadFile_try_selected:
  "Exists h io pFile \<Longrightarrow> select_importer (mImporter imp) pFile io = Some i \<Longrightarrow>
   ReadFile_try F S h io pFile pFlags imp =
     (case InternReadFile i (tables imp) pFile io of
        std_exception what \<Rightarrow> Inl what
      | ImportErrorException msg \<Rightarrow> Inr (imp\<lparr>mScene := None, mErrorString := msg\<rparr>)
      | Returned sc \<Rightarrow>
          (case (if pFlags AND aiProcess_ValidateDataStructure F \<noteq> 0
                 then ExecuteOnScene (ValidateDSProcess S) (imp\<lparr>mScene := Some sc\<rparr>)
                 else Inr (imp\<lparr>mScene := Some sc\<rparr>)) of
             Inl what \<Rightarrow> Inl what
           | Inr imp3 \<Rightarrow>
               (case mScene imp3 of
                  None \<Rightarrow> Inr imp3
                | Some sc3 \<Rightarrow>
                    run_steps pFlags (mPostProcessingSteps imp3)
                      (imp3\<lparr>mScene := Some (ScenePreprocessor S sc3)\<rparr>))))"
  by (simp add: ReadFile_try_def FreeScene_def Let_def tables_def split: outcome.splits)

lemma ReadFile_total:
  "objs h (mIOHandler imp) = Some io \<Longrightarrow> \<exists>imp'. ReadFile F S h pFile pFlags imp = Some imp'"
  by (simp add: ReadFile_def split: sum.splits)

text \<open>
  C6. With a live handler installed whose \<^verbatim>\<open>Exists\<close> is false for the path (the empty
  path included), \<^verbatim>\<open>ReadFile\<close> returns: the dispatcher holds no scene (the pointer it
  returns is \<open>mScene\<close>, null), and the error string is
  \<^verbatim>\<open>Unable to open file "\<close>, the path, \<^verbatim>\<open>".\<close>; nothing else of the dispatcher changes.
\<close>

theorem ReadFile_unable_to_open:
  assumes "objs h (mIOHandler imp) = Some io" and "\<not> Exists h io pFile"
  shows "ReadFile F S h pFile pFlags imp =
           Some (imp\<lparr>mScene := None,
                      mErrorString := ''Unable to open file \"'' @ pFile @ ''\".''\<rparr>)
         \<and> (\<exists>imp'. ReadFile F S h pFile pFlags imp = Some imp'
               \<and> GetScene imp' = None
               \<and> GetErrorString imp' = ''Unable to open file'' @ '' \"'' @ pFile @ ''\".'')"
  using assms by (simp add: ReadFile_def ReadFile_try_missing GetScene_def GetErrorString_def)

theorem ReadFile_unable_to_open_witness:
  "objs host1 (mIOHandler importer0) = Some DefaultIOSystem
   \<and> \<not> Exists host1 DefaultIOSystem ''''
   \<and> map_option (\<lambda>imp. (GetScene imp, GetErrorString imp))
        (ReadFile flags0 steps0 host1 '''' 0 importer0)
      = Some (None, ''Unable to open file \"\".'')"
  using ReadFile_unable_to_open [of host1 importer0 DefaultIOSystem "''''" flags0 steps0 0]
  by (simp add: importer0_simps host1_simps GetScene_def GetErrorString_def)

text \<open>
  C4. With a live handler and an existing file, the importer \<^verbatim>\<open>ReadFile\<close> selects is the
  first of the list, in order, whose \<^verbatim>\<open>CanRead(path, IO, false)\<close> accepts; only when
  there is none and the path has a dot it is the first whose
  \<^verbatim>\<open>CanRead(path, IO, true)\<close> accepts; otherwise none is selected, whatever the
  importers would answer to a signature check. When none is selected, \<^verbatim>\<open>ReadFile\<close>
  returns with no scene and the error string
  \<^verbatim>\<open>No suitable reader found for the file format of file "\<close>, the path, \<^verbatim>\<open>".\<close>
  When an importer is selected, \<^verbatim>\<open>ReadFile\<close> hands the file to that importer and to
  no other: its result is the one of that importer's decoding, followed by the
  validation step (when the flag asks for it), the preprocessor and the pipeline, with
  any \<^verbatim>\<open>std::exception\<close> on the way turned into the error string.
\<close>

theorem ReadFile_importer_selection:
  assumes "objs h (mIOHandler imp) = Some io" and "Exists h io pFile"
  shows "select_importer (mImporter imp) pFile io =
           (case find (\<lambda>i. CanRead i pFile io False) (mImporter imp) of
              Some i \<Rightarrow> Some i
            | None \<Rightarrow> if CHR ''.'' \<in> set pFile
                       then find (\<lambda>i. CanRead i pFile io True) (mImporter imp) else None)
         \<and> (select_importer (mImporter imp) pFile io = None \<longrightarrow>
              (\<exists>imp'. ReadFile F S h pFile pFlags imp = Some imp'
                 \<and> GetScene imp' = None
                 \<and> GetErrorString imp' =
                     ''No suitable reader'' @
                     '' found for the file format of file \"'' @ pFile @ ''\".''))
         \<and> ((case find (\<lambda>i. CanRead i pFile io False) (mImporter imp) of
               Some i \<Rightarrow> Some i
             | None \<Rightarrow> if CHR ''.'' \<in> set pFile
                        then find (\<lambda>i. CanRead i pFile io True) (mImporter imp) else None)
              = None \<longrightarrow>
              ReadFile F S h pFile pFlags imp =
                Some (imp\<lparr>mScene := None, mErrorString :=
                  ''No suitable reader found for the file format of file \"'' @ pFile
                    @ ''\".''\<rparr>))
         \<and> (\<forall>i. (case find (\<lambda>i. CanRead i pFile io False) (mImporter imp) of
                   Some i \<Rightarrow> Some i
                 | None \<Rightarrow> if CHR ''.'' \<in> set pFile
                            then find (\<lambda>i. CanRead i pFile io True) (mImporter imp) else None)
                = Some i \<longrightarrow>
              ReadFile F S h pFile pFlags imp =
                Some (case (case InternReadFile i (tables imp) pFile io of
                              std_exception what \<Rightarrow> Inl what
                            | ImportErrorException msg \<Rightarrow>
                                Inr (imp\<lparr>mScene := None, mErrorString := msg\<rparr>)
                            | Returned sc \<Rightarrow>
                                (case (if pFlags AND aiProcess_ValidateDataStructure F \<noteq> 0
                                       then ExecuteOnScene (ValidateDSProcess S)
                                              (imp\<lparr>mScene := Some sc\<rparr>)
                                       else Inr (imp\<lparr>mScene := Some sc\<rparr>)) of
                                   Inl what \<Rightarrow> Inl what
                                 | Inr imp3 \<Rightarrow>
                                     (case mScene imp3 of
                                        None \<Rightarrow> Inr imp3
                                      | Some sc3 \<Rightarrow>
                                          run_steps pFlags (mPostProcessingSteps imp3)
                                            (imp3\<lparr>mScene :=
                                               Some (ScenePreprocessor S sc3)\<rparr>)))) of
                        Inr imp' \<Rightarrow> imp'
                      | Inl what \<Rightarrow>
                          imp\<lparr>mErrorString := ''std::exception: '' @ what,
                              mScene := None\<rparr>))"
proof (intro conjI impI allI)
  show "select_importer (mImporter imp) pFile io =
           (case find (\<lambda>i. CanRead i pFile io False) (mImporter imp) of
              Some i \<Rightarrow> Some i
            | None \<Rightarrow> if CHR ''.'' \<in> set pFile
                       then find (\<lambda>i. CanRead i pFile io True) (mImporter imp) else None)"
    by (rule select_importer_find)
next
  assume n: "select_importer (mImporter imp) pFile io = None"
  have "ReadFile F S h pFile pFlags imp = Some (imp\<lparr>mScene := None, mErrorString :=
       ''No suitable reader found for the file format of file \"'' @ pFile @ ''\".''\<rparr>)"
    by (simp add: ReadFile_def assms(1) ReadFile_try_no_reader[OF assms(2) n])
  then show "\<exists>imp'. ReadFile F S h pFile pFlags imp = Some imp'
                 \<and> GetScene imp' = None
                 \<and> GetErrorString imp' =
                     ''No suitable reader'' @
                     '' found for the file format of file \"'' @ pFile @ ''\".''"
    by (simp add: GetScene_def GetErrorString_def)
next
  assume "(case find (\<lambda>i. CanRead i pFile io False) (mImporter imp) of
               Some i \<Rightarrow> Some i
             | None \<Rightarrow> if CHR ''.'' \<in> set pFile
                        then find (\<lambda>i. CanRead i pFile io True) (mImporter imp) else None)
              = None"
  then have n: "select_importer (mImporter imp) pFile io = None"
    by (simp only: select_importer_find)
  show "ReadFile F S h pFile pFlags imp =
                Some (imp\<lparr>mScene := None, mErrorString :=
                  ''No suitable reader found for the file format of file \"'' @ pFile
                    @ ''\".''\<rparr>)"
    by (simp add: ReadFile_def assms(1) ReadFile_try_no_reader[OF assms(2) n])
next
  fix i
  assume "(case find (\<lambda>i. CanRead i pFile io False) (mImporter imp) of
                   Some i \<Rightarrow> Some i
                 | None \<Rightarrow> if CHR ''.'' \<in> set pFile
                            then find (\<lambda>i. CanRead i pFile io True) (mImporter imp) else None)
                = Some i"
  then have s: "select_importer (mImporter imp) pFile io = Some i"
    by (simp only: select_importer_find)
  show "ReadFile F S h pFile pFlags imp =
                Some (case (case InternReadFile i (tables imp) pFile io of
                              std_exception what \<Rightarrow> Inl what
                            | ImportErrorException msg \<Rightarrow>
                                Inr (imp\<lparr>mScene := None, mErrorString := msg\<rparr>)
                            | Returned sc \<Rightarrow>
                                (case (if pFlags AND aiProcess_ValidateDataStructure F \<noteq> 0
                                       then ExecuteOnScene (ValidateDSProcess S)
                                              (imp\<lparr>mScene := Some sc\<rparr>)
                                       else Inr (imp\<lparr>mScene := Some sc\<rparr>)) of
                                   Inl what \<Rightarrow> Inl what
                                 | Inr imp3 \<Rightarrow>
                                     (case mScene imp3 of
                                        None \<Rightarrow> Inr imp3
                                      | Some sc3 \<Rightarrow>
                                          run_steps pFlags (mPostProcessingSteps imp3)
                                            (imp3\<lparr>mScene :=
                                               Some (ScenePreprocessor S sc3)\<rparr>)))) of
                        Inr imp' \<Rightarrow> imp'
                      | Inl what \<Rightarrow>
                          imp\<lparr>mErrorString := ''std::exception: '' @ what,
                              mScene := None\<rparr>)"
    unfolding ReadFile_def assms(1) option.case ReadFile_try_selected[OF assms(2) s]
    by (rule sum.case_distrib[of Some, symmetric, THEN trans]) simp
qed

lemma select_example:
  "select_importer [obj_importer, magic_importer] ''cube.obj'' io = Some obj_importer"
  "select_importer [obj_importer, magic_importer] ''scene.bin'' io = Some magic_importer"
  "select_importer [obj_importer, magic_importer] ''README'' io = None"
  by (simp_all add: select_importer_find obj_importer_def magic_importer_def)

theorem ReadFile_importer_selection_witness:
  "objs host1 (mIOHandler importer0) = Some DefaultIOSystem
   \<and> Exists host1 DefaultIOSystem ''README''
   \<and> find (\<lambda>i. CanRead i ''README'' DefaultIOSystem True) (mImporter importer0)
       = Some magic_importer
   \<and> select_importer (mImporter importer0) ''README'' DefaultIOSystem = None
   \<and> map_option (\<lambda>imp. (GetScene imp, GetErrorString imp))
        (ReadFile flags0 steps0 host1 ''README'' 0 importer0)
      = Some (None, ''No suitable reader found for the file format of file \"README\".'')
   \<and> Exists host1 DefaultIOSystem ''cube.obj''
   \<and> find (\<lambda>i. CanRead i ''cube.obj'' DefaultIOSystem False) (mImporter importer0)
       = Some obj_importer
   \<and> ReadFile flags0 steps0 host1 ''cube.obj'' 0 importer0
       = Some (importer0\<lparr>mScene := Some scene0\<rparr>)
   \<and> Exists host1 DefaultIOSystem ''scene.bin''
   \<and> find (\<lambda>i. CanRead i ''scene.bin'' DefaultIOSystem False) (mImporter importer0) = None
   \<and> find (\<lambda>i. CanRead i ''scene.bin'' DefaultIOSystem True) (mImporter importer0)
       = Some magic_importer
   \<and> ReadFile flags0 steps0 host1 ''scene.bin'' 0 importer0
       = Some (importer0\<lparr>mScene := None, mErrorString := ''bad magic''\<rparr>)"
proof -
  have h: "objs host1 (mIOHandler importer0) = Some DefaultIOSystem"
    by (simp add: importer0_simps host1_simps)
  have e: "Exists host1 DefaultIOSystem ''README''" "Exists host1 DefaultIOSystem ''cube.obj''"
    "Exists host1 DefaultIOSystem ''scene.bin''"
    by (simp_all add: host1_simps)
  have f: "find (\<lambda>i. CanRead i ''README'' DefaultIOSystem False) (mImporter importer0) = None"
    "find (\<lambda>i. CanRead i ''README'' DefaultIOSystem True) (mImporter importer0)
       = Some magic_importer"
    "find (\<lambda>i. CanRead i ''cube.obj'' DefaultIOSystem False) (mImporter importer0)
       = Some obj_importer"
    "find (\<lambda>i. CanRead i ''scene.bin'' DefaultIOSystem False) (mImporter importer0) = None"
    "find (\<lambda>i. CanRead i ''scene.bin'' DefaultIOSystem True) (mImporter importer0)
       = Some magic_importer"
    by (simp_all add: importer0_simps obj_importer_def magic_importer_def)
  note readme = ReadFile_importer_selection [OF h e(1), of flags0 steps0 0]
  note cube = ReadFile_importer_selection [OF h e(2), of flags0 steps0 0]
  note bin = ReadFile_importer_selection [OF h e(3), of flags0 steps0 0]
  have r1: "select_importer (mImporter importer0) ''README'' DefaultIOSystem = None"
    using readme by (simp add: f)
  have r2: "map_option (\<lambda>imp. (GetScene imp, GetErrorString imp))
        (ReadFile flags0 steps0 host1 ''README'' 0 importer0)
      = Some (None, ''No suitable reader found for the file format of file \"README\".'')"
    using readme by (simp add: f GetScene_def GetErrorString_def)
  have "ReadFile flags0 steps0 host1 ''cube.obj'' 0 importer0 =
          Some (case (case InternReadFile obj_importer (tables importer0) ''cube.obj''
                             DefaultIOSystem of
                        std_exception what \<Rightarrow> Inl what
                      | ImportErrorException msg \<Rightarrow>
                          Inr (importer0\<lparr>mScene := None, mErrorString := msg\<rparr>)
                      | Returned sc \<Rightarrow>
                          (case (if 0 AND aiProcess_ValidateDataStructure flags0 \<noteq> 0
                                 then ExecuteOnScene (ValidateDSProcess steps0)
                                        (importer0\<lparr>mScene := Some sc\<rparr>)
                                 else Inr (importer0\<lparr>mScene := Some sc\<rparr>)) of
                             Inl what \<Rightarrow> Inl what
                           | Inr imp3 \<Rightarrow>
                               (case mScene imp3 of
                                  None \<Rightarrow> Inr imp3
                                | Some sc3 \<Rightarrow>
                                    run_steps 0 (mPostProcessingSteps imp3)
                                      (imp3\<lparr>mScene :=
                                         Some (ScenePreprocessor steps0 sc3)\<rparr>)))) of
                  Inr imp' \<Rightarrow> imp'
                | Inl what \<Rightarrow>
                    importer0\<lparr>mErrorString := ''std::exception: '' @ what, mScene := None\<rparr>)"
  proof -
    have "(case find (\<lambda>i. CanRead i ''cube.obj'' DefaultIOSystem False) (mImporter importer0) of
             Some i \<Rightarrow> Some i
           | None \<Rightarrow> if CHR ''.'' \<in> set ''cube.obj''
                      then find (\<lambda>i. CanRead i ''cube.obj'' DefaultIOSystem True)
                             (mImporter importer0)
                      else None) = Some obj_importer"
      by (simp add: f)
    from cube[THEN conjunct2, THEN conjunct2, THEN conjunct2, rule_format, OF this]
    show ?thesis .
  qed
  then have c: "ReadFile flags0 steps0 host1 ''cube.obj'' 0 importer0
       = Some (importer0\<lparr>mScene := Some scene0\<rparr>)"
    by (simp add: obj_importer_def steps0_def triangulate_step_def importer0_simps)
  have "ReadFile flags0 steps0 host1 ''scene.bin'' 0 importer0 =
          Some (case (case InternReadFile magic_importer (tables importer0) ''scene.bin''
                             DefaultIOSystem of
                        std_exception what \<Rightarrow> Inl what
                      | ImportErrorException msg \<Rightarrow>
                          Inr (importer0\<lparr>mScene := None, mErrorString := msg\<rparr>)
                      | Returned sc \<Rightarrow>
                          (case (if 0 AND aiProcess_ValidateDataStructure flags0 \<noteq> 0
                                 then ExecuteOnScene (ValidateDSProcess steps0)
                                        (importer0\<lparr>mScene := Some sc\<rparr>)
                                 else Inr (importer0\<lparr>mScene := Some sc\<rparr>)) of
                             Inl what \<Rightarrow> Inl what
                           | Inr imp3 \<Rightarrow>
                               (case mScene imp3 of
                                  None \<Rightarrow> Inr imp3
                                | Some sc3 \<Rightarrow>
                                    run_steps 0 (mPostProcessingSteps imp3)
                                      (imp3\<lparr>mScene :=
                                         Some (ScenePreprocessor steps0 sc3)\<rparr>)))) of
                  Inr imp' \<Rightarrow> imp'
                | Inl what \<Rightarrow>
                    importer0\<lparr>mErrorString := ''std::exception: '' @ what, mScene := None\<rparr>)"
  proof -
    have "(case find (\<lambda>i. CanRead i ''scene.bin'' DefaultIOSystem False) (mImporter importer0) of
             Some i \<Rightarrow> Some i
           | None \<Rightarrow> if CHR ''.'' \<in> set ''scene.bin''
                      then find (\<lambda>i. CanRead i ''scene.bin'' DefaultIOSystem True)
                             (mImporter importer0)
                      else None) = Some magic_importer"
      by (simp add: f)
    from bin[THEN conjunct2, THEN conjunct2, THEN conjunct2, rule_format, OF this]
    show ?thesis .
  qed
  then have b: "ReadFile flags0 steps0 host1 ''scene.bin'' 0 importer0
       = Some (importer0\<lparr>mScene := None, mErrorString := ''bad magic''\<rparr>)"
    by (simp add: magic_importer_def)
  from h e f r1 r2 c b show ?thesis by simp
qed

subsection \<open>Reading a file: the scene and the error string\<close>

lemma ExecuteOnScene_Inr:
  assumes "ExecuteOnScene p imp = Inr imp'" and "\<forall>t sc. says_why (Execute p t sc)"
    and "mScene imp \<noteq> None"
  shows "(mScene imp' = None \<longrightarrow> mErrorString imp' \<noteq> [])
       \<and> (mScene imp' \<noteq> None \<longrightarrow> mErrorString imp' = mErrorString imp)
       \<and> kept imp imp'"
proof -
  from assms(3) obtain sc where sc: "mScene imp = Some sc" by auto
  show ?thesis
  proof (cases "Execute p (tables imp) sc")
    case (Returned sc')
    with assms(1) sc show ?thesis by (auto simp: ExecuteOnScene_def kept_def)
  next
    case (ImportErrorException msg)
    have "says_why (Execute p (tables imp) sc)" using assms(2) by blast
    with ImportErrorException have "msg \<noteq> []"
      by (simp add: says_why_def)
    with assms(1) sc ImportErrorException show ?thesis
      by (auto simp: ExecuteOnScene_def kept_def)
  next
    case (std_exception what)
    with assms(1) sc show ?thesis by (simp add: ExecuteOnScene_def)
  qed
qed

lemma run_steps_Inr:
  assumes "run_steps pFlags ps imp = Inr imp'"
    and "\<forall>p\<in>set ps. \<forall>t sc. says_why (Execute p t sc)"
    and "mScene imp \<noteq> None"
  shows "(mScene imp' = None \<longrightarrow> mErrorString imp' \<noteq> [])
       \<and> (mScene imp' \<noteq> None \<longrightarrow> mErrorString imp' = mErrorString imp)
       \<and> kept imp imp'"
  using assms
proof (induction ps arbitrary: imp)
  case Nil
  then show ?case by (auto simp: kept_def)
next
  case (Cons p ps)
  show ?case
  proof (cases "IsActive p pFlags")
    case False
    with Cons.prems(1,3) have "run_steps pFlags ps imp = Inr imp'" by simp
    from Cons.IH[OF this _ Cons.prems(3)] Cons.prems(2) show ?thesis by simp
  next
    case True
    show ?thesis
    proof (cases "ExecuteOnScene p imp")
      case (Inl what)
      with True Cons.prems(1) show ?thesis by simp
    next
      case (Inr imp1)
      from Cons.prems(2) have "\<forall>t sc. says_why (Execute p t sc)" by simp
      from ExecuteOnScene_Inr[OF Inr this Cons.prems(3)]
      have e: "mScene imp1 = None \<longrightarrow> mErrorString imp1 \<noteq> []"
          "mScene imp1 \<noteq> None \<longrightarrow> mErrorString imp1 = mErrorString imp" "kept imp imp1"
        by simp_all
      show ?thesis
      proof (cases "mScene imp1 = None")
        case n: True
        with True Inr Cons.prems(1) have "imp' = imp1" by simp
        with e n show ?thesis by simp
      next
        case n: False
        with True Inr Cons.prems(1) have "run_steps pFlags ps imp1 = Inr imp'" by simp
        from Cons.IH[OF this _ n] Cons.prems(2)
        have "(mScene imp' = None \<longrightarrow> mErrorString imp' \<noteq> [])
           \<and> (mScene imp' \<noteq> None \<longrightarrow> mErrorString imp' = mErrorString imp1)
           \<and> kept imp1 imp'" by simp
        with e n show ?thesis by (simp add: kept_def)
      qed
    qed
  qed
qed

lemma ReadFile_try_Inr:
  assumes r: "ReadFile_try F S h io pFile pFlags imp = Inr imp'"
    and imps: "\<forall>i\<in>set (mImporter imp). \<forall>t f io. says_why (InternReadFile i t f io)"
    and steps: "\<forall>p\<in>set (ValidateDSProcess S # mPostProcessingSteps imp).
                  \<forall>t sc. says_why (Execute p t sc)"
  shows "(mScene imp' = None \<longrightarrow> mErrorString imp' \<noteq> [])
       \<and> (mScene imp' \<noteq> None \<longrightarrow> mErrorString imp' = mErrorString imp)
       \<and> kept imp imp'"
proof (cases "Exists h io pFile")
  case False
  from r ReadFile_try_missing[OF False] show ?thesis by (auto simp: kept_def)
next
  case ex: True
  show ?thesis
  proof (cases "select_importer (mImporter imp) pFile io")
    case None
    from r ReadFile_try_no_reader[OF ex None] show ?thesis by (auto simp: kept_def)
  next
    case (Some i)
    note sel = ReadFile_try_selected[OF ex Some, of F S pFlags]
    have i: "i \<in> set (mImporter imp)" using Some by (rule select_importer_mem)
    show ?thesis
    proof (cases "InternReadFile i (tables imp) pFile io")
      case (std_exception what)
      with r sel show ?thesis by simp
    next
      case (ImportErrorException msg)
      have "says_why (InternReadFile i (tables imp) pFile io)" using imps i by blast
      with ImportErrorException have "msg \<noteq> []" by (simp add: says_why_def)
      with r sel ImportErrorException show ?thesis by (auto simp: kept_def)
    next
      case (Returned sc)
      define imp2 where "imp2 = imp\<lparr>mScene := Some sc\<rparr>"
      define v where "v = (if pFlags AND aiProcess_ValidateDataStructure F \<noteq> 0
                 then ExecuteOnScene (ValidateDSProcess S) imp2 else Inr imp2)"
      have "ReadFile_try F S h io pFile pFlags imp =
          (case v of Inl what \<Rightarrow> Inl what
           | Inr imp3 \<Rightarrow>
               (case mScene imp3 of
                  None \<Rightarrow> Inr imp3
                | Some sc3 \<Rightarrow>
                    run_steps pFlags (mPostProcessingSteps imp3)
                      (imp3\<lparr>mScene := Some (ScenePreprocessor S sc3)\<rparr>)))"
        unfolding sel Returned v_def imp2_def by (simp only: outcome.case)
      with r have r2: "(case v of Inl what \<Rightarrow> Inl what
           | Inr imp3 \<Rightarrow>
               (case mScene imp3 of
                  None \<Rightarrow> Inr imp3
                | Some sc3 \<Rightarrow>
                    run_steps pFlags (mPostProcessingSteps imp3)
                      (imp3\<lparr>mScene := Some (ScenePreprocessor S sc3)\<rparr>))) = Inr imp'"
        by simp
      then obtain imp3 where v3: "v = Inr imp3" by (cases v) auto
      have p3: "(mScene imp3 = None \<longrightarrow> mErrorString imp3 \<noteq> [])
       \<and> (mScene imp3 \<noteq> None \<longrightarrow> mErrorString imp3 = mErrorString imp)
       \<and> kept imp imp3"
      proof (cases "pFlags AND aiProcess_ValidateDataStructure F \<noteq> 0")
        case True
        then have e: "ExecuteOnScene (ValidateDSProcess S) imp2 = Inr imp3"
          using v3 by (simp add: v_def)
        have "\<forall>t sc. says_why (Execute (ValidateDSProcess S) t sc)" using steps by simp
        from ExecuteOnScene_Inr[OF e this] show ?thesis by (simp add: imp2_def kept_def)
      next
        case False
        then have "imp3 = imp2" using v3 by (simp add: v_def)
        then show ?thesis by (simp add: imp2_def kept_def)
      qed
      show ?thesis
      proof (cases "mScene imp3")
        case None
        with r2 v3 have "imp' = imp3" by simp
        with p3 show ?thesis by simp
      next
        case (Some sc3)
        define imp4 where "imp4 = imp3\<lparr>mScene := Some (ScenePreprocessor S sc3)\<rparr>"
        have rs: "run_steps pFlags (mPostProcessingSteps imp4) imp4 = Inr imp'"
          using r2 v3 Some by (simp add: imp4_def)
        have st: "\<forall>p\<in>set (mPostProcessingSteps imp4). \<forall>t sc. says_why (Execute p t sc)"
          using steps p3 by (simp add: imp4_def kept_def)
        have "mScene imp4 \<noteq> None" by (simp add: imp4_def)
        from run_steps_Inr[OF rs st this] p3 Some show ?thesis
          by (simp add: imp4_def kept_def)
      qed
    qed
  qed
qed

lemma ReadFile_Some:
  assumes r: "ReadFile F S h pFile pFlags imp = Some imp'"
    and imps: "\<forall>i\<in>set (mImporter imp). \<forall>t f io. says_why (InternReadFile i t f io)"
    and steps: "\<forall>p\<in>set (ValidateDSProcess S # mPostProcessingSteps imp).
                  \<forall>t sc. says_why (Execute p t sc)"
  shows "(mScene imp' = None \<longrightarrow> mErrorString imp' \<noteq> [])
       \<and> (mScene imp' \<noteq> None \<longrightarrow> mErrorString imp' = mErrorString imp)
       \<and> kept imp imp'"
proof -
  from r obtain io where io: "objs h (mIOHandler imp) = Some io"
    by (cases "objs h (mIOHandler imp)") (auto simp: ReadFile_def)
  show ?thesis
  proof (cases "ReadFile_try F S h io pFile pFlags imp")
    case (Inl what)
    with r io have "imp' = imp\<lparr>mErrorString := ''std::exception: '' @ what, mScene := None\<rparr>"
      by (simp add: ReadFile_def)
    then show ?thesis by (simp add: kept_def)
  next
    case (Inr imp1)
    with r io have "imp' = imp1" by (simp add: ReadFile_def)
    with ReadFile_try_Inr[OF Inr imps steps] show ?thesis by simp
  qed
qed

text \<open>Along a sequence of calls: a message once set stays, and the last call decides the scene.\<close>

lemma ReadFiles_steps:
  assumes "ReadFiles F S h calls imp0 = Some imp'"
    and "\<forall>i\<in>set (mImporter imp0). \<forall>t f io. says_why (InternReadFile i t f io)"
    and "\<forall>p\<in>set (ValidateDSProcess S # mPostProcessingSteps imp0).
           \<forall>t sc. says_why (Execute p t sc)"
  shows "(calls \<noteq> [] \<and> mScene imp' = None \<longrightarrow> mErrorString imp' \<noteq> [])
       \<and> (mErrorString imp0 \<noteq> [] \<longrightarrow> mErrorString imp' \<noteq> [])
       \<and> (mErrorString imp0 = [] \<longrightarrow>
            (mErrorString imp' = [] \<longleftrightarrow> all_succeed F S h calls imp0))"
  using assms
proof (induction calls arbitrary: imp0)
  case Nil
  then show ?case by simp
next
  case (Cons c calls)
  obtain pFile pFlags where c: "c = (pFile, pFlags)" by (cases c)
  from Cons.prems(1) c obtain imp1 where
    r1: "ReadFile F S h pFile pFlags imp0 = Some imp1"
    and rest: "ReadFiles F S h calls imp1 = Some imp'"
    by (auto split: option.splits)
  from ReadFile_Some[OF r1 Cons.prems(2,3)]
  have k: "kept imp0 imp1" and n: "mScene imp1 = None \<longrightarrow> mErrorString imp1 \<noteq> []"
    and m: "mScene imp1 \<noteq> None \<longrightarrow> mErrorString imp1 = mErrorString imp0" by simp_all
  have a: "\<forall>i\<in>set (mImporter imp1). \<forall>t f io. says_why (InternReadFile i t f io)"
    using Cons.prems(2) k by (simp add: kept_def)
  have b: "\<forall>p\<in>set (ValidateDSProcess S # mPostProcessingSteps imp1).
             \<forall>t sc. says_why (Execute p t sc)"
    using Cons.prems(3) k by (simp add: kept_def)
  note ih = Cons.IH[OF rest a b]
  have last: "mScene imp' = None \<longrightarrow> mErrorString imp' \<noteq> []"
  proof (cases "calls = []")
    case True
    with rest have "imp' = imp1" by simp
    with n show ?thesis by simp
  next
    case False
    with ih show ?thesis by simp
  qed
  have stays: "mErrorString imp0 \<noteq> [] \<longrightarrow> mErrorString imp' \<noteq> []"
  proof
    assume "mErrorString imp0 \<noteq> []"
    with n m have "mErrorString imp1 \<noteq> []" by (cases "mScene imp1") auto
    with ih show "mErrorString imp' \<noteq> []" by simp
  qed
  have iff: "mErrorString imp0 = [] \<longrightarrow>
            (mErrorString imp' = [] \<longleftrightarrow> all_succeed F S h (c # calls) imp0)"
  proof
    assume e0: "mErrorString imp0 = []"
    show "mErrorString imp' = [] \<longleftrightarrow> all_succeed F S h (c # calls) imp0"
    proof (cases "mScene imp1 = None")
      case True
      with n ih have "mErrorString imp' \<noteq> []" by simp
      with True r1 c show ?thesis by simp
    next
      case False
      with m e0 have "mErrorString imp1 = []" by simp
      with ih False r1 c show ?thesis by simp
    qed
  qed
  from last stays iff show ?case by simp
qed

lemma ReadFiles_total:
  assumes "objs h (mIOHandler imp0) = Some io"
    and "\<forall>i\<in>set (mImporter imp0). \<forall>t f io. says_why (InternReadFile i t f io)"
    and "\<forall>p\<in>set (ValidateDSProcess S # mPostProcessingSteps imp0).
           \<forall>t sc. says_why (Execute p t sc)"
  shows "\<exists>imp'. ReadFiles F S h calls imp0 = Some imp'"
  using assms
proof (induction calls arbitrary: imp0)
  case Nil
  then show ?case by simp
next
  case (Cons c calls)
  obtain pFile pFlags where c: "c = (pFile, pFlags)" by (cases c)
  from ReadFile_total[OF Cons.prems(1)] obtain imp1 where
    r1: "ReadFile F S h pFile pFlags imp0 = Some imp1" by blast
  from ReadFile_Some[OF r1 Cons.prems(2,3)] have k: "kept imp0 imp1" by simp
  have io: "objs h (mIOHandler imp1) = Some io" using Cons.prems(1) k by (simp add: kept_def)
  have a: "\<forall>i\<in>set (mImporter imp1). \<forall>t f io. says_why (InternReadFile i t f io)"
    using Cons.prems(2) k by (simp add: kept_def)
  have b: "\<forall>p\<in>set (ValidateDSProcess S # mPostProcessingSteps imp1).
             \<forall>t sc. says_why (Execute p t sc)"
    using Cons.prems(3) k by (simp add: kept_def)
  from Cons.IH[OF io a b] r1 c show ?case by simp
qed

lemma example_says_why:
  "\<forall>i\<in>set (mImporter importer0). \<forall>t f io. says_why (InternReadFile i t f io)"
  "\<forall>p\<in>set (ValidateDSProcess steps0 # mPostProcessingSteps importer0).
     \<forall>t sc. says_why (Execute p t sc)"
  by (simp_all add: importer0_simps says_why_def obj_importer_def magic_importer_def
      steps0_def triangulate_step_def)

lemma ReadFile_example_missing:
  assumes "mIOHandler imp = 0"
  shows "ReadFile flags0 steps0 host1 ''missing.obj'' 0 imp =
           Some (imp\<lparr>mScene := None,
                      mErrorString := ''Unable to open file \"missing.obj\".''\<rparr>)"
  by (simp add: ReadFile_def ReadFile_try_missing assms host1_simps)

lemma ReadFile_example_cube:
  assumes "mImporter imp = [obj_importer, magic_importer]"
    and "mPostProcessingSteps imp = [triangulate_step]" and "mIOHandler imp = 0"
  shows "ReadFile flags0 steps0 host1 ''cube.obj'' 0 imp = Some (imp\<lparr>mScene := Some scene0\<rparr>)"
proof -
  have ex: "Exists host1 DefaultIOSystem ''cube.obj''" by (simp add: host1_simps)
  have sel: "select_importer (mImporter imp) ''cube.obj'' DefaultIOSystem = Some obj_importer"
    using assms select_example by simp
  have "ReadFile_try flags0 steps0 host1 DefaultIOSystem ''cube.obj'' 0 imp =
          Inr (imp\<lparr>mScene := Some scene0\<rparr>)"
    unfolding ReadFile_try_selected[OF ex sel]
    by (simp add: obj_importer_def steps0_def triangulate_step_def assms)
  then show ?thesis by (simp add: ReadFile_def assms host1_simps)
qed

lemma ReadFile_example_bin:
  assumes "mImporter imp = [obj_importer, magic_importer]" and "mIOHandler imp = 0"
  shows "ReadFile flags0 steps0 host1 ''scene.bin'' 0 imp =
           Some (imp\<lparr>mScene := None, mErrorString := ''bad magic''\<rparr>)"
proof -
  have ex: "Exists host1 DefaultIOSystem ''scene.bin''" by (simp add: host1_simps)
  have sel: "select_importer (mImporter imp) ''scene.bin'' DefaultIOSystem = Some magic_importer"
    using assms select_example by simp
  have "ReadFile_try flags0 steps0 host1 DefaultIOSystem ''scene.bin'' 0 imp =
          Inr (imp\<lparr>mScene := None, mErrorString := ''bad magic''\<rparr>)"
    unfolding ReadFile_try_selected[OF ex sel]
    by (simp add: magic_importer_def)
  then show ?thesis by (simp add: ReadFile_def assms host1_simps)
qed

text \<open>
  C1 as stated fails: on a new dispatcher, a first import of a missing file fails, and a
  second import, of an existing file, succeeds. After the second call the dispatcher
  holds the scene and the error string still is the message of the first call.
\<close>

theorem ReadFile_keeps_old_error_counterexample:
  "map_option (\<lambda>imp. (GetScene imp, GetErrorString imp))
     (ReadFiles flags0 steps0 host1 [(''missing.obj'', 0), (''cube.obj'', 0)] importer0)
   = Some (Some scene0, ''Unable to open file \"missing.obj\".'')"
  by (simp add: ReadFile_example_missing ReadFile_example_cube importer0_simps
      GetScene_def GetErrorString_def)

text \<open>
  C1, amended. \<^verbatim>\<open>ReadFile\<close> sets the error string when it fails and never clears it.
  Take a dispatcher with a live handler and an empty error string (a new one), importers
  and steps whose import errors carry a non-empty text, and any non-empty sequence of
  \<^verbatim>\<open>ReadFile\<close> calls. The calls return, and after the last one: if \<^verbatim>\<open>GetScene()\<close> is
  null then \<^verbatim>\<open>GetErrorString()\<close> is not empty; and \<^verbatim>\<open>GetErrorString()\<close> is empty if
  and only if every call of the sequence returned a scene. So \<^verbatim>\<open>GetScene()\<close> is non-null
  iff the error string is empty as long as no earlier call has failed.
\<close>

theorem ReadFiles_scene_and_error_string:
  assumes "objs h (mIOHandler imp0) = Some io"
    and "\<forall>i\<in>set (mImporter imp0). \<forall>t f io. says_why (InternReadFile i t f io)"
    and "\<forall>p\<in>set (ValidateDSProcess S # mPostProcessingSteps imp0).
           \<forall>t sc. says_why (Execute p t sc)"
    and "GetErrorString imp0 = []"
    and "calls \<noteq> []"
  shows "\<exists>imp'. ReadFiles F S h calls imp0 = Some imp'
           \<and> (GetScene imp' = None \<longrightarrow> GetErrorString imp' \<noteq> [])
           \<and> (GetErrorString imp' = [] \<longleftrightarrow> all_succeed F S h calls imp0)"
proof -
  from ReadFiles_total[OF assms(1,2,3)] obtain imp' where
    r: "ReadFiles F S h calls imp0 = Some imp'" by blast
  from ReadFiles_steps[OF r assms(2,3)] assms(4,5)
  have c: "(GetScene imp' = None \<longrightarrow> GetErrorString imp' \<noteq> [])
           \<and> (GetErrorString imp' = [] \<longleftrightarrow> all_succeed F S h calls imp0)"
    unfolding GetScene_def GetErrorString_def by blast
  show ?thesis by (rule exI[of _ imp'], rule conjI[OF r c])
qed

theorem ReadFiles_scene_and_error_string_witness:
  "objs host1 (mIOHandler importer0) = Some DefaultIOSystem
   \<and> GetErrorString importer0 = []
   \<and> map_option (\<lambda>imp. (GetScene imp, GetErrorString imp))
        (ReadFiles flags0 steps0 host1 [(''cube.obj'', 0), (''scene.bin'', 0)] importer0)
      = Some (None, ''bad magic'')
   \<and> \<not> all_succeed flags0 steps0 host1 [(''cube.obj'', 0), (''scene.bin'', 0)] importer0
   \<and> map_option (\<lambda>imp. (GetScene imp, GetErrorString imp))
        (ReadFiles flags0 steps0 host1 [(''cube.obj'', 0)] importer0)
      = Some (Some scene0, [])
   \<and> all_succeed flags0 steps0 host1 [(''cube.obj'', 0)] importer0"
  using
    ReadFiles_scene_and_error_string
      [OF _ example_says_why, of host1 DefaultIOSystem
         "[(''cube.obj'', 0), (''scene.bin'', 0)]" flags0]
    ReadFiles_scene_and_error_string
      [OF _ example_says_why, of host1 DefaultIOSystem "[(''cube.obj'', 0)]" flags0]
  by (simp add: ReadFile_example_cube ReadFile_example_bin importer0_simps host1_simps
      GetScene_def GetErrorString_def)

subsection \<open>Memory requirements\<close>

lemma channels_loop_returns:
  "mChannels pc = [] \<or> i < length (mChannels pc) \<Longrightarrow>
   \<exists>r. channels_loop L pc i a acc = Inr r"
proof (induction L pc i a acc rule: channels_loop.induct)
  case (1 L pc i a acc)
  show ?case
  proof (cases "a < length (mChannels pc)")
    case True
    with "1.prems" have i: "i < length (mChannels pc)" by auto
    from "1.IH"[OF True i "1.prems"] True i show ?thesis
      by (subst channels_loop.simps) simp
  next
    case False
    then show ?thesis by (subst channels_loop.simps) simp
  qed
qed

lemma animations_loop_returns:
  "\<forall>i<length anims. start \<le> i \<longrightarrow>
      mChannels (anims ! i) = [] \<or> i < length (mChannels (anims ! i)) \<Longrightarrow>
   \<exists>r. animations_loop L anims start acc = Inr r"
proof (induction L anims start acc rule: animations_loop.induct)
  case (1 L anims i acc)
  show ?case
  proof (cases "i < length anims")
    case True
    with "1.prems" have "mChannels (anims ! i) = [] \<or> i < length (mChannels (anims ! i))"
      by simp
    from channels_loop_returns[OF this] obtain r where
      r: "channels_loop L (anims ! i) i 0 (acc + sizeof_aiAnimation L) = Inr r" by blast
    have "\<exists>r'. animations_loop L anims (i + 1) r = Inr r'"
      using "1.IH"[OF True r] "1.prems" by simp
    with True r show ?thesis by (subst animations_loop.simps) simp
  next
    case False
    then show ?thesis by (subst animations_loop.simps) simp
  qed
qed

lemma GetMemoryRequirements_no_scene:
  "mScene imp = None \<Longrightarrow>
   GetMemoryRequirements L imp =
     Inr \<lparr>textures = 0, materials = 0, meshes = 0, nodes = 0, animations = 0,
          cameras = 0, lights = 0, total = 0\<rparr>"
  by (simp add: GetMemoryRequirements_def)

lemma GetMemoryRequirements_Inr:
  "mScene imp = Some sc \<Longrightarrow> GetMemoryRequirements L imp = Inr info \<Longrightarrow>
   total info = sizeof_aiScene L
     + (meshes info + materials info + animations info + textures info
        + cameras info + lights info + nodes info)"
  by (auto simp: GetMemoryRequirements_def Let_def split: sum.splits)

lemma GetMemoryRequirements_returns:
  assumes sc: "mScene imp = Some sc" and "channel_reads_in_range sc"
  shows "\<exists>info. GetMemoryRequirements L imp = Inr info"
proof -
  from assms(2) have "\<forall>i<length (mAnimations sc). 0 \<le> i \<longrightarrow>
       mChannels (mAnimations sc ! i) = [] \<or> i < length (mChannels (mAnimations sc ! i))"
    by (simp add: channel_reads_in_range_def list_all_iff)
  from animations_loop_returns[OF this] obtain r where
    "animations_loop L (mAnimations sc) 0 0 = Inr r"
    by blast
  with sc show ?thesis by (simp add: GetMemoryRequirements_def Let_def)
qed

text \<open>
  C2 as stated fails: for the loaded scene with nothing but a root node, the total is
  1176, the size of the scene structure (56) above the sum of the categories (1120, the
  root node).
\<close>

theorem GetMemoryRequirements_total_counterexample:
  "map_sum id
     (\<lambda>info. (total info,
               meshes info + materials info + animations info + textures info
                 + cameras info + lights info + nodes info))
     (GetMemoryRequirements layout0 (importer0\<lparr>mScene := Some scene0\<rparr>))
   = Inr (1176, 1120)"
  by (simp add: GetMemoryRequirements_def Let_def scene0_def layout0_def animations_loop.simps)

text \<open>
  C2, amended. With no scene loaded every field of the result is 0. For a loaded scene
  on which the channel reads of the walk stay in range, \<^verbatim>\<open>GetMemoryRequirements\<close>
  returns, and the total is \<^verbatim>\<open>sizeof(aiScene)\<close> plus the sum of the seven categories,
  in 32-bit unsigned arithmetic. The function is a \<^verbatim>\<open>const\<close> member that only reads the
  scene: it maps the dispatcher to the result and gives no new dispatcher.
\<close>

theorem GetMemoryRequirements_total:
  "(mScene imp = None \<longrightarrow>
      GetMemoryRequirements L imp =
        Inr \<lparr>textures = 0, materials = 0, meshes = 0, nodes = 0, animations = 0,
             cameras = 0, lights = 0, total = 0\<rparr>)
   \<and> (\<forall>sc. mScene imp = Some sc \<and> channel_reads_in_range sc \<longrightarrow>
        (\<exists>info. GetMemoryRequirements L imp = Inr info
           \<and> total info = sizeof_aiScene L
               + (meshes info + materials info + animations info + textures info
                  + cameras info + lights info + nodes info)))"
proof (intro conjI impI allI)
  assume "mScene imp = None"
  then show "GetMemoryRequirements L imp =
        Inr \<lparr>textures = 0, materials = 0, meshes = 0, nodes = 0, animations = 0,
             cameras = 0, lights = 0, total = 0\<rparr>"
    by (rule GetMemoryRequirements_no_scene)
next
  fix sc
  assume a: "mScene imp = Some sc \<and> channel_reads_in_range sc"
  then obtain info where i: "GetMemoryRequirements L imp = Inr info"
    using GetMemoryRequirements_returns by blast
  from a have "mScene imp = Some sc" by simp
  from GetMemoryRequirements_Inr[OF this i] i
  show "\<exists>info. GetMemoryRequirements L imp = Inr info
           \<and> total info = sizeof_aiScene L
               + (meshes info + materials info + animations info + textures info
                  + cameras info + lights info + nodes info)"
    by blast
qed

lemma GetMemoryRequirements_scene1:
  "GetMemoryRequirements layout0 (importer0\<lparr>mScene := Some scene1\<rparr>) =
     Inr \<lparr>textures = 40, materials = 48, meshes = 1828, nodes = 2248, animations = 2156,
          cameras = 1080, lights = 2200, total = 9656\<rparr>"
  by (simp add: GetMemoryRequirements_def Let_def scene1_def layout0_def animations_loop.simps
      channels_loop.simps channel_of_def channel_weight_def mesh_weight_def sets_loop.simps
      bone_weight_def texture_weight_def material_weight_def)

theorem GetMemoryRequirements_total_witness:
  "mScene (importer0\<lparr>mScene := Some scene1\<rparr>) = Some scene1
   \<and> channel_reads_in_range scene1
   \<and> GetMemoryRequirements layout0 (importer0\<lparr>mScene := Some scene1\<rparr>) =
       Inr \<lparr>textures = 40, materials = 48, meshes = 1828, nodes = 2248, animations = 2156,
            cameras = 1080, lights = 2200, total = 9656\<rparr>
   \<and> (9656 :: uint) = sizeof_aiScene layout0 + (1828 + 48 + 2156 + 40 + 1080 + 2200 + 2248)
   \<and> mScene importer0 = None
   \<and> GetMemoryRequirements layout0 importer0 =
        Inr \<lparr>textures = 0, materials = 0, meshes = 0, nodes = 0, animations = 0,
             cameras = 0, lights = 0, total = 0\<rparr>"
proof -
  have r: "channel_reads_in_range scene1"
    by (simp add: channel_reads_in_range_def scene1_def channel_of_def)
  have s: "(9656 :: uint) = sizeof_aiScene layout0 + (1828 + 48 + 2156 + 40 + 1080 + 2200 + 2248)"
    by (simp add: layout0_def)
  show ?thesis
    using GetMemoryRequirements_total [of "importer0\<lparr>mScene := Some scene1\<rparr>" layout0]
      GetMemoryRequirements_total [of importer0 layout0] r s
    by (simp add: GetMemoryRequirements_scene1 importer0_simps)
qed

text \<open>
  C3 fails on the code. In a scene with one animation of two channels (one and three
  position keys) the walk reads channel 0 twice: it counts 3208 bytes where the channels
  read by their own index give 3256. In a scene with two animations of one channel each,
  the walk of the second animation reads \<^verbatim>\<open>mChannels[1]\<close> of an array of one element.
\<close>

theorem GetMemoryRequirements_reads_channel_of_outer_index:
  "map_sum id animations
     (GetMemoryRequirements layout0 (importer0\<lparr>mScene := Some scene_two_channels\<rparr>))
     = Inr 3208
   \<and> animations_by_channel_index layout0 (mAnimations scene_two_channels) 0 = 3256
   \<and> GetMemoryRequirements layout0 (importer0\<lparr>mScene := Some scene_two_animations\<rparr>)
     = Inl OutOfBounds"
  by (simp add: GetMemoryRequirements_def Let_def scene0_def layout0_def animations_loop.simps
      channels_loop.simps scene_two_channels_def scene_two_animations_def channel_of_def
      channel_weight_def animations_by_channel_index_def)

subsection \<open>Validation of the flags\<close>

lemma unat_exp: "k < 32 \<Longrightarrow> unat (2 ^ k :: uint) = 2 ^ k"
proof -
  assume k: "k < 32"
  have lt: "(2::nat) ^ k < 2 ^ 32" using k by (rule_tac power_strict_increasing) simp_all
  have "unat (2 ^ k :: uint) = 2 ^ k mod 2 ^ 32"
    using unat_of_nat[where 'a=32, of "2 ^ k"] by simp
  also have "\<dots> = 2 ^ k" using lt by simp
  finally show ?thesis .
qed

lemma exp_less_bound: "k < 31 \<Longrightarrow> (2 ^ k :: uint) < 2147483648"
proof -
  assume k: "k < 31"
  have "(2::nat) ^ k < 2 ^ 31" using k by (rule_tac power_strict_increasing) simp_all
  then have "unat (2 ^ k :: uint) < unat (2 ^ 31 :: uint)" using k by (simp add: unat_exp)
  then show ?thesis by (simp add: word_less_nat_alt)
qed

lemma and_exp_bit: "(p AND 2 ^ k \<noteq> 0) = bit (p :: uint) k"
  using bit_iff_and_push_bit_not_eq_0[of p k] by simp

lemma mask_loop_from:
  "k \<le> 31 \<Longrightarrow>
   mask_loop steps p (2 ^ k) =
     Some (\<forall>j. k \<le> j \<and> j < 31 \<and> bit p j \<longrightarrow> have_step steps (2 ^ j))"
proof (induction "31 - k" arbitrary: k)
  case 0
  then have k: "k = 31" by simp
  show ?case unfolding k by (subst mask_loop.simps) auto
next
  case (Suc n)
  then have k: "k < 31" by simp
  have ih: "mask_loop steps p (2 ^ Suc k) =
     Some (\<forall>j. Suc k \<le> j \<and> j < 31 \<and> bit p j \<longrightarrow> have_step steps (2 ^ j))"
  proof -
    have "n = 31 - Suc k" "Suc k \<le> 31" using Suc.hyps(2) k by simp_all
    then show ?thesis by (rule Suc.hyps(1))
  qed
  have split: "(\<forall>j. k \<le> j \<and> j < 31 \<and> bit p j \<longrightarrow> have_step steps (2 ^ j)) =
    ((bit p k \<longrightarrow> have_step steps (2 ^ k)) \<and>
     (\<forall>j. Suc k \<le> j \<and> j < 31 \<and> bit p j \<longrightarrow> have_step steps (2 ^ j)))"
  proof -
    have "\<And>j. (k \<le> j) = (j = k \<or> Suc k \<le> j)" by auto
    then show ?thesis using k by auto
  qed
  have step: "mask_loop steps p (2 ^ k) =
     (if bit p k
      then (if have_step steps (2 ^ k) then mask_loop steps p (2 ^ Suc k) else Some False)
      else mask_loop steps p (2 ^ Suc k))"
    by (subst mask_loop.simps) (simp add: exp_less_bound[OF k] and_exp_bit mult.commute)
  show ?case unfolding step ih split by auto
qed

lemma ValidateFlags_eq:
  "ValidateFlags F imp pFlags =
     Some (global_ValidateFlags F pFlags
           \<and> (\<forall>j. j < 31 \<and> bit (pFlags AND NOT (aiProcess_ValidateDataStructure F)) j
                  \<longrightarrow> have_step (mPostProcessingSteps imp) (2 ^ j)))"
  using mask_loop_from[of 0 "mPostProcessingSteps imp" "pFlags AND NOT (aiProcess_ValidateDataStructure F)"]
  by (simp add: ValidateFlags_def)

lemma have_step_iff: "have_step ps m = (\<exists>p\<in>set ps. IsActive p m)"
  by (induction ps) auto

text \<open>
  C5 fails on the code. The loop over the masks stops before the mask \<open>2 ^ 31\<close>, so
  the highest bit is never checked: with one step in the pipeline, which services bit 3
  only, the flags \<open>0x80000000\<close> are accepted although no step is active for them, while
  the unserviced bit 4 (\<open>0x10\<close>) is rejected as the claim says. The other lines show
  the cases where code and claim agree: a serviced bit, the two normal generators
  together, and the validation bit beside a serviced bit.
\<close>

theorem ValidateFlags_accepts_unserviced_bit_31:
  "ValidateFlags flags0 importer0 0x80000000 = Some True
   \<and> \<not> have_step (mPostProcessingSteps importer0) 0x80000000
   \<and> ValidateFlags flags0 importer0 0x10 = Some False
   \<and> \<not> have_step (mPostProcessingSteps importer0) 0x10
   \<and> ValidateFlags flags0 importer0 0x8 = Some True
   \<and> ValidateFlags flags0 importer0 0x60 = Some False
   \<and> ValidateFlags flags0 importer0 0x408 = Some True"
  by (simp add: ValidateFlags_def global_ValidateFlags_def flags0_def importer0_simps
      mask_loop.simps triangulate_step_def)

subsection \<open>The animation evaluator\<close>

lemma find_frame_bounds:
  "start \<le> find_frame time keys start
   \<and> (start \<le> length keys - 1 \<longrightarrow> find_frame time keys start \<le> length keys - 1)
   \<and> (\<forall>f. start \<le> f \<and> f < find_frame time keys start \<longrightarrow> mTime (keys ! (f + 1)) \<le> time)"
proof (induction time keys start rule: find_frame.induct)
  case (1 time keys frame)
  show ?case
  proof (cases "frame < length keys - 1 \<and> \<not> time < mTime (keys ! (frame + 1))")
    case True
    then have e: "find_frame time keys frame = find_frame time keys (frame + 1)"
      by (subst find_frame.simps) simp
    from True "1.IH" have ih:
      "frame + 1 \<le> find_frame time keys (frame + 1)"
      "find_frame time keys (frame + 1) \<le> length keys - 1"
      "\<forall>f. frame + 1 \<le> f \<and> f < find_frame time keys (frame + 1) \<longrightarrow>
           mTime (keys ! (f + 1)) \<le> time"
      by simp_all
    have "\<forall>f. frame \<le> f \<and> f < find_frame time keys (frame + 1) \<longrightarrow>
           mTime (keys ! (f + 1)) \<le> time"
    proof (intro allI impI)
      fix f assume f: "frame \<le> f \<and> f < find_frame time keys (frame + 1)"
      show "mTime (keys ! (f + 1)) \<le> time"
      proof (cases "f = frame")
        case True
        with \<open>frame < length keys - 1 \<and> \<not> time < mTime (keys ! (frame + 1))\<close>
        show ?thesis by simp
      next
        case False
        with f have "frame + 1 \<le> f" by simp
        with f ih(3) show ?thesis by simp
      qed
    qed
    with ih e show ?thesis by simp
  next
    case False
    then have "find_frame time keys frame = frame"
      by (subst find_frame.simps) auto
    then show ?thesis by simp
  qed
qed

lemma find_frame_resume:
  assumes "cache_ok lastTime keys cached" and "lastTime \<le> time" and "start \<le> cached"
  shows "find_frame time keys start = find_frame time keys cached"
  using assms(3)
proof (induction "cached - start" arbitrary: start)
  case 0
  then show ?case by simp
next
  case (Suc n)
  then have lt: "start < cached" by simp
  with assms(1) have "start < length keys - 1" and "mTime (keys ! (start + 1)) \<le> lastTime"
    by (simp_all add: cache_ok_def)
  with assms(2) have "find_frame time keys start = find_frame time keys (start + 1)"
    by (subst find_frame.simps) simp
  moreover have "find_frame time keys (start + 1) = find_frame time keys cached"
  proof (rule Suc.hyps(1))
    show "n = cached - (start + 1)" using Suc.hyps(2) by simp
    show "start + 1 \<le> cached" using lt by simp
  qed
  ultimately show ?case by simp
qed

lemma cache_ok_find_frame: "cache_ok time keys (find_frame time keys 0)"
  using find_frame_bounds[of 0 time keys] by (simp add: cache_ok_def)

lemma find_frame_empty: "find_frame time [] 0 = 0"
  by (subst find_frame.simps) simp

lemma track_reference:
  assumes "cache_ok lastTime keys cached"
  shows "track time lastTime keys cached dflt =
           (reference_track time keys dflt, find_frame time keys 0)"
proof (cases "keys = []")
  case True
  with assms have "cached = 0" by (simp add: cache_ok_def)
  with True show ?thesis by (simp add: track_def reference_track_def find_frame_empty)
next
  case False
  show ?thesis
  proof (cases "time \<ge> lastTime")
    case True
    from find_frame_resume[OF assms True, of 0]
    have "find_frame time keys cached = find_frame time keys 0" by simp
    with False True show ?thesis by (simp add: track_def reference_track_def Let_def)
  next
    case False
    with \<open>keys \<noteq> []\<close> show ?thesis by (simp add: track_def reference_track_def Let_def)
  qed
qed

lemma eval_channel_reference:
  assumes "channel_cache_ok lastTime channel cached"
  shows "eval_channel toMatrix time lastTime (channel, cached) =
           (reference_frames time channel, reference_channel toMatrix time channel)"
proof -
  obtain l0 l1 l2 where c: "cached = (l0, l1, l2)" by (cases cached) auto
  from assms c have ok:
    "cache_ok lastTime (mPositionKeys channel) l0"
    "cache_ok lastTime (mRotationKeys channel) l1"
    "cache_ok lastTime (mScalingKeys channel) l2"
    by (simp_all add: channel_cache_ok_def)
  show ?thesis
    by (simp add: eval_channel_def c track_reference[OF ok(1)] track_reference[OF ok(2)]
        track_reference[OF ok(3)] reference_frames_def reference_channel_def)
qed

lemma channel_cache_ok_reference: "channel_cache_ok time channel (reference_frames time channel)"
  by (simp add: channel_cache_ok_def reference_frames_def cache_ok_find_frame)

lemma map_eval_channel:
  "list_all2 (channel_cache_ok lastTime) channels cached \<Longrightarrow>
   map (eval_channel toMatrix time lastTime) (zip channels cached) =
     map (\<lambda>channel. (reference_frames time channel, reference_channel toMatrix time channel))
       channels"
  by (induction rule: list_all2_induct) (simp_all add: eval_channel_reference)

lemma Evaluate_reference:
  assumes "evaluator_ok anim ev"
  shows "Evaluate toMatrix pTime ev =
           ev\<lparr>mLastPositions := map (reference_frames (ticks_time anim pTime)) (mChannels anim),
              mTransforms := reference_transforms toMatrix anim pTime,
              mLastTime := ticks_time anim pTime\<rparr>"
proof -
  from assms have a: "mAnim ev = anim"
    and l: "list_all2 (channel_cache_ok (mLastTime ev)) (mChannels anim) (mLastPositions ev)"
    by (simp_all add: evaluator_ok_def)
  show ?thesis
    by (simp add: Evaluate_def a map_eval_channel[OF l] reference_transforms_def o_def Let_def)
qed

lemma evaluator_ok_new: "evaluator_ok anim (new_AnimEvaluator anim)"
  by (simp add: evaluator_ok_def new_AnimEvaluator_def list_all2_conv_all_nth
      channel_cache_ok_def cache_ok_def)

lemma evaluator_ok_Evaluate:
  assumes "evaluator_ok anim ev"
  shows "evaluator_ok anim (Evaluate toMatrix pTime ev)"
proof -
  from assms have a: "mAnim ev = anim" by (simp add: evaluator_ok_def)
  show ?thesis
    unfolding Evaluate_reference[OF assms]
    by (simp add: evaluator_ok_def a list_all2_conv_all_nth channel_cache_ok_reference)
qed

lemma evaluator_ok_fold:
  "evaluator_ok anim ev \<Longrightarrow> evaluator_ok anim (fold (Evaluate toMatrix) pTimes ev)"
  by (induction pTimes arbitrary: ev) (simp_all add: evaluator_ok_Evaluate)

lemma ticks_time_anim0:
  "ticks_time anim0 2 = 50" "ticks_time anim0 3 = 75" "ticks_time anim0 1 = 25"
  by (simp_all add: ticks_time_def anim0_def fmod_def)

lemma find_frame_anim0:
  "find_frame 50 [position_key 0 1, position_key 40 2, position_key 60 3] 0 = 1"
  "find_frame 75 [position_key 0 1, position_key 40 2, position_key 60 3] 0 = 2"
  "find_frame 25 [position_key 0 1, position_key 40 2, position_key 60 3] 0 = 0"
  "find_frame t [k] 0 = 0"
  by (simp_all add: find_frame.simps position_key_def)



text \<open>
  C10. After any history of \<^verbatim>\<open>Evaluate\<close> calls on an evaluator of an animation, a call
  for the time \<open>pTime\<close> produces the transforms of the reference evaluation, which
  searches every track from frame 0: they depend on \<open>pTime\<close> and the animation only.
  The frames it remembers for the position, rotation and scaling track of every channel
  are the frames the search from frame 0 finds.
\<close>

theorem Evaluate_independent_of_history:
  "mTransforms (Evaluate toMatrix pTime (fold (Evaluate toMatrix) pTimes (new_AnimEvaluator anim)))
     = reference_transforms toMatrix anim pTime
   \<and> mLastPositions
       (Evaluate toMatrix pTime (fold (Evaluate toMatrix) pTimes (new_AnimEvaluator anim)))
     = map (reference_frames (ticks_time anim pTime)) (mChannels anim)"
  by (simp add: Evaluate_reference[OF evaluator_ok_fold[OF evaluator_ok_new]])

theorem Evaluate_independent_of_history_witness:
  "mLastPositions (Evaluate toMatrix0 2 (fold (Evaluate toMatrix0) [1, 3] (new_AnimEvaluator anim0)))
     = [(1, 0, 0)]
   \<and> mLastPositions (Evaluate toMatrix0 2 (fold (Evaluate toMatrix0) [] (new_AnimEvaluator anim0)))
     = [(1, 0, 0)]
   \<and> mLastPositions (Evaluate toMatrix0 3 (fold (Evaluate toMatrix0) [1, 2] (new_AnimEvaluator anim0)))
     = [(2, 0, 0)]
   \<and> map a4 (mTransforms
        (Evaluate toMatrix0 2 (fold (Evaluate toMatrix0) [1, 3] (new_AnimEvaluator anim0))))
     = [2]
   \<and> map a1 (reference_transforms toMatrix0 anim0 2) = [2]"
proof -
  have f: "map (reference_frames (ticks_time anim0 2)) (mChannels anim0) = [(1, 0, 0)]"
    "map (reference_frames (ticks_time anim0 3)) (mChannels anim0) = [(2, 0, 0)]"
    by (simp_all add: ticks_time_anim0)
       (simp_all add: anim0_def reference_frames_def find_frame_anim0 find_frame_empty)
  have t: "reference_transforms toMatrix0 anim0 2 =
             [\<lparr>a1 = 2, a2 = 0, a3 = 0, a4 = 2, b1 = 0, b2 = 2, b3 = 0, b4 = 0,
               c1 = 0, c2 = 0, c3 = 2, c4 = 0, d1 = 0, d2 = 0, d3 = 0, d4 = 1\<rparr>]"
    by (simp add: reference_transforms_def ticks_time_anim0)
       (simp add: anim0_def reference_channel_def reference_track_def find_frame_anim0,
        simp add: build_matrix_def toMatrix0_def position_key_def)
  show ?thesis
    using Evaluate_independent_of_history [of toMatrix0 2 "[1, 3]" anim0]
      Evaluate_independent_of_history [of toMatrix0 2 "[]" anim0]
      Evaluate_independent_of_history [of toMatrix0 3 "[1, 2]" anim0]
    by (simp only: f t) simp
qed

end
